theory Spec2Isabelle
  imports Complex_Main "HOL-Library.Char_ord" "HOL-Library.List_Lexorder"
begin

section \<open>The AingalLang interpreter (src/src/interpreter.py)\<close>

text \<open>
  A shallow embedding of the tree-walking evaluator \<^verbatim>\<open>Interpreter\<close> of
  \<^verbatim>\<open>src/src/interpreter.py\<close>.

  \<^item> Python values are the datatype \<open>pyval\<close>; \<^verbatim>\<open>None\<close> and the instances of
    \<^verbatim>\<open>BreakStatement\<close> are values like the others, as in the source.
  \<^item> Python's \<^verbatim>\<open>int\<close> is \<open>int\<close>. Python's \<^verbatim>\<open>float\<close> is \<open>pyfloat\<close>: a finite double is the
    rational that it denotes, and the two zeros, the infinities and NaN are values.
    The operations that round (the conversions from text and from \<^verbatim>\<open>int\<close>, the
    arithmetic, \<^verbatim>\<open>repr\<close>, the functions of \<^verbatim>\<open>math\<close>) are not computed here: they are
    the fields of a \<open>runtime\<close>, a parameter of the evaluator: a theorem about a
    runtime \<open>rt\<close> holds for every runtime, and says so where it needs a fact of it.
  \<^item> Exceptions are values: every \<^verbatim>\<open>raise\<close> of the source is a \<open>Raise\<close> outcome, either
    \<open>FunctionReturn v\<close> (the class of that name) or \<open>Error e\<close>. Source positions and
    the source-line text carried by \<^verbatim>\<open>InterpreterError\<close> are not modelled.
  \<^item> Scopes are objects shared by reference: the state holds a store from addresses to
    scopes, and \<open>current_scope\<close>, \<open>global_scope\<close>, the parent links and the defining
    scope of a function are addresses.
  \<^item> \<^verbatim>\<open>self.visit(ctx)\<close> is \<open>visit\<close>, with fuel: \<open>None\<close> means the fuel ran out.
\<close>

subsection \<open>Values and errors\<close>

text \<open>
  A float: \<open>Finite q\<close> is the double whose value is \<open>q\<close>, with \<open>Finite 0\<close> for \<^verbatim>\<open>0.0\<close>, and
  \<open>NegZero\<close> is \<^verbatim>\<open>-0.0\<close>.
\<close>

datatype pyfloat = Finite rat | NegZero | PosInf | NegInf | NaN

datatype pyval =
    NoneVal
  | BoolVal bool
  | IntVal int
  | FloatVal pyfloat
  | StrVal string
  | ListVal "pyval list"
  | BreakStatement

datatype error =
    Exception string
  | InterpreterError string string
  | TypeError
  | ValueError
  | ZeroDivisionError
  | KeyError
  | IndexError
  | AttributeError
  | OverflowError

text \<open>
  An error is the class of the exception. \<open>Exception\<close> carries its message and
  \<open>InterpreterError\<close> its message and its suggestion, as the source writes them; the
  messages of the other classes, most of them raised by Python itself, are not modelled.
  The spec names the faults; in the source they are
  \<^item> UndefinedVariable: \<^verbatim>\<open>Exception("Variable '...' not found in any scope")\<close>;
  \<^item> AmbiguousShadowedDeclaration: \<^verbatim>\<open>InterpreterError("Cannot declare variable '...' in
    parent scope when it exists in child scope")\<close>;
  \<^item> NonNumericIncrement: \<^verbatim>\<open>Exception("Cannot increment/decrement non-numeric
    variable '...'.")\<close>;
  \<^item> UnsupportedDimension: \<^verbatim>\<open>Exception("Only 2x2 matrix inversion supported")\<close>;
  \<^item> NotInvertible: \<^verbatim>\<open>Exception("Matrix is not invertible")\<close>;
  \<^item> TypeMismatch: \<^verbatim>\<open>TypeError\<close>.
\<close>

text \<open>\<^verbatim>\<open>'{name}'\<close> inside a message\<close>

definition quoted :: "string \<Rightarrow> string" where
  "quoted s = CHR 0x27 # s @ [CHR 0x27]"

text \<open>
  The operations of the Python runtime that round a result to a double, or whose result
  depends on the process (\<^verbatim>\<open>repr\<close> of an object). They are a parameter of the evaluator.
  \<^item> \<open>float_of_str\<close> is \<^verbatim>\<open>float(text)\<close>, \<open>None\<close> for its \<^verbatim>\<open>ValueError\<close>;
  \<^item> \<open>float_of_int\<close> is \<^verbatim>\<open>float(i)\<close>, \<open>None\<close> for its \<^verbatim>\<open>OverflowError\<close>;
  \<^item> \<open>float_add\<close>, \<open>float_sub\<close>, \<open>float_mul\<close> are \<^verbatim>\<open>+\<close>, \<^verbatim>\<open>-\<close>, \<^verbatim>\<open>*\<close> of two floats;
  \<^item> \<open>float_truediv\<close>, \<open>float_floordiv\<close>, \<open>float_mod\<close> are \<^verbatim>\<open>/\<close>, \<^verbatim>\<open>//\<close>, \<^verbatim>\<open>%\<close> of two floats
    when the divisor is not zero;
  \<^item> \<open>int_truediv\<close> is \<^verbatim>\<open>i / j\<close> of two integers when \<open>j\<close> is not zero, \<open>None\<close> for its
    \<^verbatim>\<open>OverflowError\<close>.
\<close>

record runtime =
  float_of_str :: "string \<Rightarrow> pyfloat option"
  float_of_int :: "int \<Rightarrow> pyfloat option"
  float_add :: "pyfloat \<Rightarrow> pyfloat \<Rightarrow> pyfloat"
  float_sub :: "pyfloat \<Rightarrow> pyfloat \<Rightarrow> pyfloat"
  float_mul :: "pyfloat \<Rightarrow> pyfloat \<Rightarrow> pyfloat"
  float_truediv :: "pyfloat \<Rightarrow> pyfloat \<Rightarrow> pyfloat"
  float_floordiv :: "pyfloat \<Rightarrow> pyfloat \<Rightarrow> pyfloat"
  float_mod :: "pyfloat \<Rightarrow> pyfloat \<Rightarrow> pyfloat"
  int_truediv :: "int \<Rightarrow> int \<Rightarrow> pyfloat option"
  float_repr :: "pyfloat \<Rightarrow> string"
  str_repr :: "string \<Rightarrow> string"
  object_repr :: string
  str_format :: "string \<Rightarrow> pyval \<Rightarrow> error + pyval"
  math_pow :: "pyfloat \<Rightarrow> pyfloat \<Rightarrow> error + pyfloat"
  math_sin :: "pyfloat \<Rightarrow> error + pyfloat"
  math_cos :: "pyfloat \<Rightarrow> error + pyfloat"
  math_tan :: "pyfloat \<Rightarrow> error + pyfloat"

subsection \<open>Python's operators on values\<close>

datatype number = IntNum int | FloatNum pyfloat

text \<open>\<^verbatim>\<open>bool\<close> is a subclass of \<^verbatim>\<open>int\<close>: \<^verbatim>\<open>True\<close> is 1 and \<^verbatim>\<open>False\<close> is 0 in arithmetic.\<close>

fun as_number :: "pyval \<Rightarrow> number option" where
  "as_number (BoolVal b) = Some (IntNum (if b then 1 else 0))"
| "as_number (IntVal i) = Some (IntNum i)"
| "as_number (FloatVal f) = Some (FloatNum f)"
| "as_number v = None"

fun isinstance_int :: "pyval \<Rightarrow> bool" where
  "isinstance_int (IntVal i) = True"
| "isinstance_int (BoolVal b) = True"
| "isinstance_int v = False"

fun isinstance_float :: "pyval \<Rightarrow> bool" where
  "isinstance_float (FloatVal f) = True"
| "isinstance_float v = False"

fun isinstance_str :: "pyval \<Rightarrow> bool" where
  "isinstance_str (StrVal s) = True"
| "isinstance_str v = False"

fun isinstance_list :: "pyval \<Rightarrow> bool" where
  "isinstance_list (ListVal xs) = True"
| "isinstance_list v = False"

fun isinstance_BreakStatement :: "pyval \<Rightarrow> bool" where
  "isinstance_BreakStatement BreakStatement = True"
| "isinstance_BreakStatement v = False"

text \<open>\<^verbatim>\<open>isinstance(v, (int, float))\<close>\<close>

definition isinstance_int_float :: "pyval \<Rightarrow> bool" where
  "isinstance_int_float v = (isinstance_int v \<or> isinstance_float v)"

text \<open>\<^verbatim>\<open>x == 0.0\<close> for a float: both zeros are equal to zero.\<close>

fun float_is_zero :: "pyfloat \<Rightarrow> bool" where
  "float_is_zero (Finite q) = (q = 0)"
| "float_is_zero NegZero = True"
| "float_is_zero f = False"

text \<open>The truth value of an object (\<^verbatim>\<open>if v:\<close>, \<^verbatim>\<open>bool(v)\<close>, \<^verbatim>\<open>not v\<close>).\<close>

fun truthy :: "pyval \<Rightarrow> bool" where
  "truthy NoneVal = False"
| "truthy (BoolVal b) = b"
| "truthy (IntVal i) = (i \<noteq> 0)"
| "truthy (FloatVal f) = (\<not> float_is_zero f)"
| "truthy (StrVal s) = (s \<noteq> [])"
| "truthy (ListVal xs) = (xs \<noteq> [])"
| "truthy BreakStatement = True"

subsection \<open>Errors of Python's own operations as values\<close>

definition err_bind :: "error + 'a \<Rightarrow> ('a \<Rightarrow> error + 'b) \<Rightarrow> error + 'b" where
  "err_bind m f = (case m of Inl e \<Rightarrow> Inl e | Inr v \<Rightarrow> f v)"

subsection \<open>Arithmetic\<close>

text \<open>
  The operand of a float operation as a float: an integer is converted, which is an
  \<^verbatim>\<open>OverflowError\<close> when it is too large.
\<close>

fun to_float :: "runtime \<Rightarrow> number \<Rightarrow> error + pyfloat" where
  "to_float rt (IntNum i) =
     (case float_of_int rt i of None \<Rightarrow> Inl OverflowError | Some f \<Rightarrow> Inr f)"
| "to_float rt (FloatNum f) = Inr f"

text \<open>
  \<^verbatim>\<open>+\<close>, \<^verbatim>\<open>-\<close>, \<^verbatim>\<open>*\<close> of two numbers: of two integers it is the integer operation \<open>fi\<close>,
  exact; with a float among them both operands are taken as floats, the left one first,
  and the result is the float operation \<open>ff\<close> of the runtime.
\<close>

fun arith ::
    "runtime \<Rightarrow> (int \<Rightarrow> int \<Rightarrow> int) \<Rightarrow> (pyfloat \<Rightarrow> pyfloat \<Rightarrow> pyfloat) \<Rightarrow> number \<Rightarrow> number \<Rightarrow>
     error + pyval" where
  "arith rt fi ff (IntNum i) (IntNum j) = Inr (IntVal (fi i j))"
| "arith rt fi ff x y =
     err_bind (to_float rt x) (\<lambda>a.
     err_bind (to_float rt y) (\<lambda>b.
     Inr (FloatVal (ff a b))))"

text \<open>
  \<^verbatim>\<open>/\<close>, \<^verbatim>\<open>//\<close>, \<^verbatim>\<open>%\<close> of two numbers with a float among them: both operands are taken as
  floats, a zero divisor is a \<^verbatim>\<open>ZeroDivisionError\<close>, and the result is the float
  operation \<open>ff\<close> of the runtime.
\<close>

definition float_division ::
    "runtime \<Rightarrow> (pyfloat \<Rightarrow> pyfloat \<Rightarrow> pyfloat) \<Rightarrow> number \<Rightarrow> number \<Rightarrow> error + pyval" where
  "float_division rt ff x y =
     err_bind (to_float rt x) (\<lambda>a.
     err_bind (to_float rt y) (\<lambda>b.
     if float_is_zero b then Inl ZeroDivisionError else Inr (FloatVal (ff a b))))"

text \<open>\<^verbatim>\<open>a + b\<close>\<close>

definition py_add :: "runtime \<Rightarrow> pyval \<Rightarrow> pyval \<Rightarrow> error + pyval" where
  "py_add rt a b =
     (case (as_number a, as_number b) of
        (Some x, Some y) \<Rightarrow> arith rt (+) (float_add rt) x y
      | _ \<Rightarrow>
        (case (a, b) of
           (StrVal s, StrVal t) \<Rightarrow> Inr (StrVal (s @ t))
         | (ListVal xs, ListVal ys) \<Rightarrow> Inr (ListVal (xs @ ys))
         | _ \<Rightarrow> Inl TypeError))"

text \<open>\<^verbatim>\<open>a - b\<close>\<close>

definition py_sub :: "runtime \<Rightarrow> pyval \<Rightarrow> pyval \<Rightarrow> error + pyval" where
  "py_sub rt a b =
     (case (as_number a, as_number b) of
        (Some x, Some y) \<Rightarrow> arith rt (-) (float_sub rt) x y
      | _ \<Rightarrow> Inl TypeError)"

text \<open>\<^verbatim>\<open>a * b\<close>: a sequence times an integer repeats it (not at all for a count below 1).\<close>

definition py_mul :: "runtime \<Rightarrow> pyval \<Rightarrow> pyval \<Rightarrow> error + pyval" where
  "py_mul rt a b =
     (case (as_number a, as_number b) of
        (Some x, Some y) \<Rightarrow> arith rt (*) (float_mul rt) x y
      | (None, Some (IntNum j)) \<Rightarrow>
        (case a of
           StrVal s \<Rightarrow> Inr (StrVal (concat (replicate (nat j) s)))
         | ListVal xs \<Rightarrow> Inr (ListVal (concat (replicate (nat j) xs)))
         | _ \<Rightarrow> Inl TypeError)
      | (Some (IntNum i), None) \<Rightarrow>
        (case b of
           StrVal s \<Rightarrow> Inr (StrVal (concat (replicate (nat i) s)))
         | ListVal xs \<Rightarrow> Inr (ListVal (concat (replicate (nat i) xs)))
         | _ \<Rightarrow> Inl TypeError)
      | _ \<Rightarrow> Inl TypeError)"

text \<open>
  \<^verbatim>\<open>a / b\<close>: true division, always a float. Of two integers it is the quotient rounded
  once, an operation of the runtime.
\<close>

definition py_truediv :: "runtime \<Rightarrow> pyval \<Rightarrow> pyval \<Rightarrow> error + pyval" where
  "py_truediv rt a b =
     (case (as_number a, as_number b) of
        (Some (IntNum i), Some (IntNum j)) \<Rightarrow>
          if j = 0 then Inl ZeroDivisionError
          else (case int_truediv rt i j of
                  None \<Rightarrow> Inl OverflowError
                | Some f \<Rightarrow> Inr (FloatVal f))
      | (Some x, Some y) \<Rightarrow> float_division rt (float_truediv rt) x y
      | _ \<Rightarrow> Inl TypeError)"

text \<open>\<^verbatim>\<open>a // b\<close>: floor division; of two integers, the quotient rounded towards minus infinity.\<close>

definition py_floordiv :: "runtime \<Rightarrow> pyval \<Rightarrow> pyval \<Rightarrow> error + pyval" where
  "py_floordiv rt a b =
     (case (as_number a, as_number b) of
        (Some (IntNum i), Some (IntNum j)) \<Rightarrow>
          if j = 0 then Inl ZeroDivisionError else Inr (IntVal (i div j))
      | (Some x, Some y) \<Rightarrow> float_division rt (float_floordiv rt) x y
      | _ \<Rightarrow> Inl TypeError)"

text \<open>
  \<^verbatim>\<open>a % b\<close>: of two integers the remainder has the sign of the divisor; with a string on
  the left it is printf-style formatting, a function of the runtime.
\<close>

definition py_mod :: "runtime \<Rightarrow> pyval \<Rightarrow> pyval \<Rightarrow> error + pyval" where
  "py_mod rt a b =
     (case a of
        StrVal s \<Rightarrow> str_format rt s b
      | _ \<Rightarrow>
        (case (as_number a, as_number b) of
           (Some (IntNum i), Some (IntNum j)) \<Rightarrow>
             if j = 0 then Inl ZeroDivisionError else Inr (IntVal (i mod j))
         | (Some x, Some y) \<Rightarrow> float_division rt (float_mod rt) x y
         | _ \<Rightarrow> Inl TypeError))"

text \<open>\<^verbatim>\<open>-a\<close> and \<^verbatim>\<open>+a\<close>; the negation of a float changes its sign and does not round.\<close>

fun float_neg :: "pyfloat \<Rightarrow> pyfloat" where
  "float_neg (Finite q) = (if q = 0 then NegZero else Finite (- q))"
| "float_neg NegZero = Finite 0"
| "float_neg PosInf = NegInf"
| "float_neg NegInf = PosInf"
| "float_neg NaN = NaN"

definition py_neg :: "pyval \<Rightarrow> error + pyval" where
  "py_neg a =
     (case as_number a of
        Some (IntNum i) \<Rightarrow> Inr (IntVal (- i))
      | Some (FloatNum f) \<Rightarrow> Inr (FloatVal (float_neg f))
      | None \<Rightarrow> Inl TypeError)"

definition py_pos :: "pyval \<Rightarrow> error + pyval" where
  "py_pos a =
     (case as_number a of
        Some (IntNum i) \<Rightarrow> Inr (IntVal i)
      | Some (FloatNum f) \<Rightarrow> Inr (FloatVal f)
      | None \<Rightarrow> Inl TypeError)"

subsection \<open>Comparisons\<close>

text \<open>
  The place of a number in the order of the numbers: minus infinity, the finite values
  by their exact value (the two zeros are equal), plus infinity; NaN has no place. An
  integer and a float are compared by their exact values.
\<close>

fun float_key :: "pyfloat \<Rightarrow> (nat \<times> rat) option" where
  "float_key (Finite q) = Some (1, q)"
| "float_key NegZero = Some (1, 0)"
| "float_key PosInf = Some (2, 0)"
| "float_key NegInf = Some (0, 0)"
| "float_key NaN = None"

fun num_key :: "number \<Rightarrow> (nat \<times> rat) option" where
  "num_key (IntNum i) = Some (1, of_int i)"
| "num_key (FloatNum f) = float_key f"

definition key_less :: "nat \<times> rat \<Rightarrow> nat \<times> rat \<Rightarrow> bool" where
  "key_less a b = (fst a < fst b \<or> (fst a = fst b \<and> snd a < snd b))"

text \<open>A comparison with NaN is false, also \<^verbatim>\<open>nan == nan\<close>.\<close>

definition num_eq :: "number \<Rightarrow> number \<Rightarrow> bool" where
  "num_eq x y = (case (num_key x, num_key y) of (Some a, Some b) \<Rightarrow> a = b | _ \<Rightarrow> False)"

text \<open>
  \<^verbatim>\<open>a == b\<close>: numbers by value, strings and lists structurally, \<^verbatim>\<open>None\<close> with itself; two
  \<^verbatim>\<open>BreakStatement\<close> objects are compared by identity and every visit creates a new one.
\<close>

fun py_eq :: "pyval \<Rightarrow> pyval \<Rightarrow> bool"
  and py_eq_list :: "pyval list \<Rightarrow> pyval list \<Rightarrow> bool" where
  "py_eq (StrVal s) (StrVal t) = (s = t)"
| "py_eq (ListVal xs) (ListVal ys) = py_eq_list xs ys"
| "py_eq NoneVal NoneVal = True"
| "py_eq a b =
     (case (as_number a, as_number b) of
        (Some x, Some y) \<Rightarrow> num_eq x y
      | _ \<Rightarrow> False)"
| "py_eq_list [] [] = True"
| "py_eq_list (x # xs) (y # ys) = (py_eq x y \<and> py_eq_list xs ys)"
| "py_eq_list xs ys = False"

datatype cmp_op = Lt | Gt | Le | Ge

fun cmp_key :: "cmp_op \<Rightarrow> nat \<times> rat \<Rightarrow> nat \<times> rat \<Rightarrow> bool" where
  "cmp_key Lt a b = key_less a b"
| "cmp_key Gt a b = key_less b a"
| "cmp_key Le a b = (key_less a b \<or> a = b)"
| "cmp_key Ge a b = (key_less b a \<or> a = b)"

definition cmp_num :: "cmp_op \<Rightarrow> number \<Rightarrow> number \<Rightarrow> bool" where
  "cmp_num c x y = (case (num_key x, num_key y) of (Some a, Some b) \<Rightarrow> cmp_key c a b | _ \<Rightarrow> False)"

fun cmp_str :: "cmp_op \<Rightarrow> string \<Rightarrow> string \<Rightarrow> bool" where
  "cmp_str Lt x y = (x < y)"
| "cmp_str Gt x y = (x > y)"
| "cmp_str Le x y = (x \<le> y)"
| "cmp_str Ge x y = (x \<ge> y)"

fun cmp_len :: "cmp_op \<Rightarrow> nat \<Rightarrow> nat \<Rightarrow> bool" where
  "cmp_len Lt x y = (x < y)"
| "cmp_len Gt x y = (x > y)"
| "cmp_len Le x y = (x \<le> y)"
| "cmp_len Ge x y = (x \<ge> y)"

text \<open>
  \<^verbatim>\<open>a < b\<close>, \<^verbatim>\<open>a > b\<close>, \<^verbatim>\<open>a <= b\<close>, \<^verbatim>\<open>a >= b\<close>: numbers by value, strings and lists
  lexicographically (the first pair of unequal elements decides, then the lengths);
  any other pair of operands is a \<^verbatim>\<open>TypeError\<close>.
\<close>

fun py_compare :: "cmp_op \<Rightarrow> pyval \<Rightarrow> pyval \<Rightarrow> error + bool"
  and py_compare_list :: "cmp_op \<Rightarrow> pyval list \<Rightarrow> pyval list \<Rightarrow> error + bool" where
  "py_compare c (StrVal s) (StrVal t) = Inr (cmp_str c s t)"
| "py_compare c (ListVal xs) (ListVal ys) = py_compare_list c xs ys"
| "py_compare c a b =
     (case (as_number a, as_number b) of
        (Some x, Some y) \<Rightarrow> Inr (cmp_num c x y)
      | _ \<Rightarrow> Inl TypeError)"
| "py_compare_list c (x # xs) (y # ys) =
     (if py_eq x y then py_compare_list c xs ys else py_compare c x y)"
| "py_compare_list c xs ys = Inr (cmp_len c (length xs) (length ys))"

subsection \<open>Textual forms\<close>

definition digit_char :: "nat \<Rightarrow> char" where
  "digit_char d = ''0123456789'' ! d"

fun digits :: "nat \<Rightarrow> string" where
  "digits n = (if n < 10 then [digit_char n] else digits (n div 10) @ [digit_char (n mod 10)])"

declare digits.simps [simp del]

text \<open>\<^verbatim>\<open>str(i)\<close> of an integer\<close>

definition str_int :: "int \<Rightarrow> string" where
  "str_int i = (if i < 0 then CHR ''-'' # digits (nat (- i)) else digits (nat i))"

fun intersperse :: "string \<Rightarrow> string list \<Rightarrow> string" where
  "intersperse sep [] = []"
| "intersperse sep [x] = x"
| "intersperse sep (x # y # ys) = x @ sep @ intersperse sep (y # ys)"

text \<open>\<^verbatim>\<open>repr(v)\<close>, which a list applies to its elements, and \<^verbatim>\<open>str(v)\<close>\<close>

fun py_repr :: "runtime \<Rightarrow> pyval \<Rightarrow> string" where
  "py_repr rt NoneVal = ''None''"
| "py_repr rt (BoolVal b) = (if b then ''True'' else ''False'')"
| "py_repr rt (IntVal i) = str_int i"
| "py_repr rt (FloatVal q) = float_repr rt q"
| "py_repr rt (StrVal s) = str_repr rt s"
| "py_repr rt (ListVal xs) = ''['' @ intersperse '', '' (map (py_repr rt) xs) @ '']''"
| "py_repr rt BreakStatement = object_repr rt"

fun py_str :: "runtime \<Rightarrow> pyval \<Rightarrow> string" where
  "py_str rt (StrVal s) = s"
| "py_str rt v = py_repr rt v"

text \<open>\<^verbatim>\<open>s.lower()\<close>, on the ASCII letters\<close>

definition lower_char :: "char \<Rightarrow> char" where
  "lower_char c =
     (case map_of (zip ''ABCDEFGHIJKLMNOPQRSTUVWXYZ'' ''abcdefghijklmnopqrstuvwxyz'') c of
        Some l \<Rightarrow> l
      | None \<Rightarrow> c)"

definition lower :: "string \<Rightarrow> string" where
  "lower s = map lower_char s"

subsection \<open>Conversions\<close>

text \<open>
  \<^verbatim>\<open>int(text)\<close> of a string: an optional sign and decimal digits. The other notations
  that Python accepts (underscores, surrounding blanks, digits outside ASCII) are
  outside the model and read as a \<^verbatim>\<open>ValueError\<close>.
\<close>

definition is_digit :: "char \<Rightarrow> bool" where
  "is_digit c = (c \<in> set ''0123456789'')"

definition digit_val :: "char \<Rightarrow> nat" where
  "digit_val c =
     (if c = CHR ''1'' then 1 else if c = CHR ''2'' then 2 else if c = CHR ''3'' then 3
      else if c = CHR ''4'' then 4 else if c = CHR ''5'' then 5 else if c = CHR ''6'' then 6
      else if c = CHR ''7'' then 7 else if c = CHR ''8'' then 8 else if c = CHR ''9'' then 9
      else 0)"

definition nat_of_digits :: "string \<Rightarrow> nat" where
  "nat_of_digits ds = foldl (\<lambda>a c. 10 * a + digit_val c) 0 ds"

definition split_sign :: "string \<Rightarrow> bool \<times> string" where
  "split_sign s =
     (case s of
        [] \<Rightarrow> (False, [])
      | c # r \<Rightarrow> if c = CHR ''-'' then (True, r) else if c = CHR ''+'' then (False, r) else (False, s))"

definition int_of_str :: "string \<Rightarrow> int option" where
  "int_of_str s =
     (case split_sign s of
        (neg, ds) \<Rightarrow>
          if ds \<noteq> [] \<and> list_all is_digit ds
          then Some (if neg then - int (nat_of_digits ds) else int (nat_of_digits ds))
          else None)"

text \<open>
  \<^verbatim>\<open>float(v)\<close>: a float is itself, an integer converts (\<^verbatim>\<open>OverflowError\<close> when it is too
  large), a string is parsed (\<^verbatim>\<open>ValueError\<close> when it is no float literal), anything else
  is a \<^verbatim>\<open>TypeError\<close>.
\<close>

definition py_float :: "runtime \<Rightarrow> pyval \<Rightarrow> error + pyfloat" where
  "py_float rt v =
     (case as_number v of
        Some x \<Rightarrow> to_float rt x
      | None \<Rightarrow>
        (case v of
           StrVal s \<Rightarrow> (case float_of_str rt s of Some f \<Rightarrow> Inr f | None \<Rightarrow> Inl ValueError)
         | _ \<Rightarrow> Inl TypeError))"

text \<open>
  \<^verbatim>\<open>int(x)\<close> of a float truncates towards zero; of an infinity it is an
  \<^verbatim>\<open>OverflowError\<close> and of NaN a \<^verbatim>\<open>ValueError\<close>.
\<close>

definition trunc_rat :: "rat \<Rightarrow> int" where
  "trunc_rat q = (if 0 \<le> q then \<lfloor>q\<rfloor> else \<lceil>q\<rceil>)"

fun int_of_float :: "pyfloat \<Rightarrow> error + int" where
  "int_of_float (Finite q) = Inr (trunc_rat q)"
| "int_of_float NegZero = Inr 0"
| "int_of_float PosInf = Inl OverflowError"
| "int_of_float NegInf = Inl OverflowError"
| "int_of_float NaN = Inl ValueError"

text \<open>\<^verbatim>\<open>x.is_integer()\<close>: false for the infinities and NaN.\<close>

fun is_integer :: "pyfloat \<Rightarrow> bool" where
  "is_integer (Finite q) = (of_int \<lfloor>q\<rfloor> = q)"
| "is_integer NegZero = True"
| "is_integer f = False"

text \<open>
  \<^verbatim>\<open>if isinstance(value, float) and value.is_integer(): value = int(value)\<close>, the
  narrowing of \<^verbatim>\<open>visitVariableDeclarationOrAssignment\<close> and \<^verbatim>\<open>cast_value\<close>.
\<close>

fun narrow :: "pyval \<Rightarrow> pyval" where
  "narrow (FloatVal f) =
     (if is_integer f then (case int_of_float f of Inr i \<Rightarrow> IntVal i | Inl e \<Rightarrow> FloatVal f)
      else FloatVal f)"
| "narrow v = v"

fun all_rows_lists :: "pyval list \<Rightarrow> bool" where
  "all_rows_lists [] = True"
| "all_rows_lists (r # rs) = (isinstance_list r \<and> all_rows_lists rs)"

text \<open>\<^verbatim>\<open>Interpreter.cast_value\<close>\<close>

definition cast_value :: "runtime \<Rightarrow> pyval \<Rightarrow> string option \<Rightarrow> error + pyval" where
  "cast_value rt v type_str =
     (case type_str of
        None \<Rightarrow> Inr (narrow v)
      | Some t \<Rightarrow>
          if t = ''int'' then
            err_bind (py_float rt v) (\<lambda>f. err_bind (int_of_float f) (\<lambda>i. Inr (IntVal i)))
          else if t = ''float'' then
            err_bind (py_float rt v) (\<lambda>f. Inr (FloatVal f))
          else if t = ''bool'' then
            (case v of
               StrVal s \<Rightarrow> Inr (BoolVal (lower s = ''true''))
             | _ \<Rightarrow> Inr (BoolVal (truthy v)))
          else if t = ''string'' then Inr (StrVal (py_str rt v))
          else if t = ''matrix'' then
            (case v of
               ListVal rows \<Rightarrow> if all_rows_lists rows then Inr v else Inl (Exception ''Invalid matrix format'')
             | _ \<Rightarrow> Inl (Exception ''Invalid matrix format''))
          else Inl (Exception (''Unknown type: '' @ t)))"

subsection \<open>Sequences\<close>

text \<open>\<^verbatim>\<open>len(v)\<close>\<close>

fun py_len :: "pyval \<Rightarrow> error + nat" where
  "py_len (ListVal xs) = Inr (length xs)"
| "py_len (StrVal s) = Inr (length s)"
| "py_len v = Inl TypeError"

text \<open>\<^verbatim>\<open>v[i]\<close> for an index \<open>i \<ge> 0\<close>; an element of a string is a string of one character.\<close>

fun py_getitem :: "pyval \<Rightarrow> nat \<Rightarrow> error + pyval" where
  "py_getitem (ListVal xs) i = (if i < length xs then Inr (xs ! i) else Inl IndexError)"
| "py_getitem (StrVal s) i = (if i < length s then Inr (StrVal [s ! i]) else Inl IndexError)"
| "py_getitem v i = Inl TypeError"

text \<open>
  \<^verbatim>\<open>a, b = v\<close>: unpacking into two names; a sequence of another length is a
  \<^verbatim>\<open>ValueError\<close>, a value that is not iterable a \<^verbatim>\<open>TypeError\<close>.
\<close>

fun unpack2 :: "pyval \<Rightarrow> error + (pyval \<times> pyval)" where
  "unpack2 (ListVal [a, b]) = Inr (a, b)"
| "unpack2 (ListVal xs) = Inl ValueError"
| "unpack2 (StrVal [a, b]) = Inr (StrVal [a], StrVal [b])"
| "unpack2 (StrVal s) = Inl ValueError"
| "unpack2 v = Inl TypeError"

subsection \<open>Matrices\<close>

text \<open>
  \<^verbatim>\<open>Interpreter.invert_matrix\<close>. The \<^verbatim>\<open>or\<close> of the shape test does not evaluate
  \<^verbatim>\<open>len(matrix[0])\<close> when \<^verbatim>\<open>len(matrix) != 2\<close>.
\<close>

definition invert_matrix :: "runtime \<Rightarrow> pyval \<Rightarrow> error + pyval" where
  "invert_matrix rt matrix =
     err_bind (py_len matrix) (\<lambda>n.
     err_bind (if n \<noteq> 2 then Inr True
               else err_bind (py_getitem matrix 0) (\<lambda>row0.
                    err_bind (py_len row0) (\<lambda>n0. Inr (n0 \<noteq> 2)))) (\<lambda>bad.
     if bad then Inl (Exception ''Only 2x2 matrix inversion supported'')
     else
       err_bind (py_getitem matrix 0) (\<lambda>row0.
       err_bind (unpack2 row0) (\<lambda>(a, b).
       err_bind (py_getitem matrix 1) (\<lambda>row1.
       err_bind (unpack2 row1) (\<lambda>(c, d).
       err_bind (py_mul rt a d) (\<lambda>ad.
       err_bind (py_mul rt b c) (\<lambda>bc.
       err_bind (py_sub rt ad bc) (\<lambda>determinant.
       if py_eq determinant (IntVal 0) then Inl (Exception ''Matrix is not invertible'')
       else
         err_bind (py_truediv rt d determinant) (\<lambda>e00.
         err_bind (py_neg b) (\<lambda>nb.
         err_bind (py_truediv rt nb determinant) (\<lambda>e01.
         err_bind (py_neg c) (\<lambda>nc.
         err_bind (py_truediv rt nc determinant) (\<lambda>e10.
         err_bind (py_truediv rt a determinant) (\<lambda>e11.
         Inr (ListVal [ListVal [e00, e01], ListVal [e10, e11]]))))))))))))))))"

fun err_map :: "('a \<Rightarrow> error + 'b) \<Rightarrow> 'a list \<Rightarrow> error + 'b list" where
  "err_map f [] = Inr []"
| "err_map f (x # xs) = err_bind (f x) (\<lambda>y. err_bind (err_map f xs) (\<lambda>ys. Inr (y # ys)))"

text \<open>
  \<^verbatim>\<open>Interpreter.transpose_matrix\<close>: the list comprehension evaluates \<^verbatim>\<open>len(matrix[0])\<close>
  first and, for each column \<open>i\<close>, \<^verbatim>\<open>len(matrix)\<close> and then \<^verbatim>\<open>matrix[j][i]\<close> for each \<open>j\<close>.
\<close>

definition transpose_matrix :: "pyval \<Rightarrow> error + pyval" where
  "transpose_matrix matrix =
     (if \<not> truthy matrix then Inr (ListVal [])
      else
        err_bind (py_getitem matrix 0) (\<lambda>row0.
        if \<not> truthy row0 then Inr (ListVal [])
        else
          err_bind (py_len row0) (\<lambda>n0.
          err_bind (err_map (\<lambda>i.
              err_bind (py_len matrix) (\<lambda>n.
              err_bind (err_map (\<lambda>j. err_bind (py_getitem matrix j) (\<lambda>row. py_getitem row i)) [0..<n])
                (\<lambda>col. Inr (ListVal col)))) [0..<n0])
            (\<lambda>rows. Inr (ListVal rows)))))"

subsection \<open>The syntax tree\<close>

text \<open>
  The parser (\<^verbatim>\<open>AingalLangParser\<close>, generated by ANTLR) is not part of the sources. The
  tree is modelled as the runtime of ANTLR builds it and as the visitor reads it:
  \<^item> \<open>TerminalNode type text\<close> is a token of the given type (\<^verbatim>\<open>IDENTIFIER\<close>, \<^verbatim>\<open>SET\<close>, ...)
    with its text;
  \<^item> \<open>RuleNode rule label parent children\<close> is a rule context: \<open>rule\<close> names the grammar
    rule, which the accessors \<^verbatim>\<open>ctx.rule()\<close> and \<^verbatim>\<open>ctx.rule(i)\<close> select children by;
    \<open>label\<close> is the suffix of the visit method that \<^verbatim>\<open>accept\<close> calls (the rule, or the
    label of the alternative, capitalised: \<^verbatim>\<open>visitWhileLoop\<close>, \<^verbatim>\<open>visitFactorNumber\<close>);
    \<open>parent\<close> is the rule of \<^verbatim>\<open>ctx.parentCtx\<close>.
  A context whose visit method the interpreter does not define is visited by
  \<^verbatim>\<open>visitChildren\<close>.
\<close>

datatype node =
    TerminalNode string string
  | RuleNode string string string "node list"

fun is_rule :: "string \<Rightarrow> node \<Rightarrow> bool" where
  "is_rule r (RuleNode r' l p cs) = (r' = r)"
| "is_rule r (TerminalNode t x) = False"

fun is_token :: "string \<Rightarrow> node \<Rightarrow> bool" where
  "is_token t (TerminalNode t' x) = (t' = t)"
| "is_token t (RuleNode r l p cs) = False"

fun children :: "node \<Rightarrow> node list" where
  "children (RuleNode r l p cs) = cs"
| "children (TerminalNode t x) = []"

text \<open>\<^verbatim>\<open>ctx.getText()\<close>: the text of the tokens below the node, in order.\<close>

fun getText :: "node \<Rightarrow> string" where
  "getText (TerminalNode t x) = x"
| "getText (RuleNode r l p cs) = concat (map getText cs)"

definition child_at :: "node list \<Rightarrow> nat \<Rightarrow> node option" where
  "child_at cs i = (if i < length cs then Some (cs ! i) else None)"

text \<open>
  \<^verbatim>\<open>ctx.rule()\<close> of a rule that may occur several times is the list of these children,
  \<^verbatim>\<open>ctx.rule(i)\<close> the \<open>i\<close>-th of them or \<^verbatim>\<open>None\<close>, and \<^verbatim>\<open>ctx.rule()\<close> of a rule that
  occurs once the first of them or \<^verbatim>\<open>None\<close>; the same for the tokens.
\<close>

definition rule_list :: "string \<Rightarrow> node list \<Rightarrow> node list" where
  "rule_list r cs = filter (is_rule r) cs"

definition rule_at :: "string \<Rightarrow> nat \<Rightarrow> node list \<Rightarrow> node option" where
  "rule_at r i cs = child_at (rule_list r cs) i"

definition token_list :: "string \<Rightarrow> node list \<Rightarrow> node list" where
  "token_list t cs = filter (is_token t) cs"

definition token_at :: "string \<Rightarrow> nat \<Rightarrow> node list \<Rightarrow> node option" where
  "token_at t i cs = child_at (token_list t cs) i"

text \<open>The first of the rules, in the order of an \<^verbatim>\<open>if\<close>/\<^verbatim>\<open>elif\<close> chain, that the context has.\<close>

fun first_rule :: "string list \<Rightarrow> node list \<Rightarrow> node option" where
  "first_rule [] cs = None"
| "first_rule (r # rs) cs = (case rule_at r 0 cs of Some n \<Rightarrow> Some n | None \<Rightarrow> first_rule rs cs)"

subsection \<open>Scopes and the interpreter's state\<close>

record scope_obj =
  variables :: "string \<rightharpoonup> pyval"
  parameters :: "string set"
  parent :: "nat option"

text \<open>An entry of \<^verbatim>\<open>self.functions\<close>; \<^verbatim>\<open>ctx.blockStatement()\<close> may be \<^verbatim>\<open>None\<close>.\<close>

record func =
  params :: "string list"
  body :: "node option"
  scope :: nat

type_synonym frame = "string \<times> string list \<times> nat"

text \<open>
  The fields of \<^verbatim>\<open>Interpreter\<close>; \<open>interp_variables\<close> is \<^verbatim>\<open>self.variables\<close> and
  \<open>functions_map\<close> is \<^verbatim>\<open>self.functions\<close>. \<open>scopes\<close> is the store of the \<^verbatim>\<open>Scope\<close>
  objects and \<open>next_ref\<close> the next unused address. \<open>stdout\<close> collects what \<^verbatim>\<open>print\<close>
  writes.
\<close>

record interp =
  scopes :: "nat \<Rightarrow> scope_obj"
  next_ref :: nat
  global_scope :: nat
  current_scope :: nat
  memory :: "string \<rightharpoonup> pyval"
  interp_variables :: "string \<rightharpoonup> pyval"
  functions_map :: "string \<rightharpoonup> func"
  output_lines :: "string list"
  call_stack :: "frame list"
  debug :: bool
  skip_next_block_scope :: bool
  stdout :: "string list"

definition empty_scope :: "nat option \<Rightarrow> scope_obj" where
  "empty_scope p = \<lparr>variables = Map.empty, parameters = {}, parent = p\<rparr>"

text \<open>\<^verbatim>\<open>Interpreter.__init__\<close>: the global scope is the object at address 0.\<close>

definition init :: "bool \<Rightarrow> interp" where
  "init dbg =
     \<lparr>scopes = (\<lambda>r. empty_scope None), next_ref = 1, global_scope = 0, current_scope = 0,
      memory = Map.empty, interp_variables = Map.empty, functions_map = Map.empty,
      output_lines = [], call_stack = [], debug = dbg, skip_next_block_scope = False,
      stdout = []\<rparr>"

subsection \<open>Outcomes and sequencing\<close>

datatype exn = FunctionReturn pyval | Error error

datatype 'a outcome = Val 'a | Raise exn

type_synonym 'a M = "interp \<Rightarrow> ('a outcome \<times> interp) option"

definition ret :: "'a \<Rightarrow> 'a M" where
  "ret v s = Some (Val v, s)"

definition raise :: "exn \<Rightarrow> 'a M" where
  "raise e s = Some (Raise e, s)"

definition bnd :: "'a M \<Rightarrow> ('a \<Rightarrow> 'b M) \<Rightarrow> 'b M" where
  "bnd m f s =
     (case m s of
        None \<Rightarrow> None
      | Some (Val v, s') \<Rightarrow> f v s'
      | Some (Raise e, s') \<Rightarrow> Some (Raise e, s'))"

definition gets :: "(interp \<Rightarrow> 'a) \<Rightarrow> 'a M" where
  "gets f s = Some (Val (f s), s)"

definition modify :: "(interp \<Rightarrow> interp) \<Rightarrow> unit M" where
  "modify f s = Some (Val (), f s)"

text \<open>An operation of Python that raises or returns.\<close>

definition lift_err :: "error + 'a \<Rightarrow> 'a M" where
  "lift_err r = (case r of Inl e \<Rightarrow> raise (Error e) | Inr v \<Rightarrow> ret v)"

text \<open>\<^verbatim>\<open>x.attr\<close> or \<^verbatim>\<open>x.method()\<close> where \<^verbatim>\<open>x\<close> may be \<^verbatim>\<open>None\<close>\<close>

definition not_none :: "'a option \<Rightarrow> 'a M" where
  "not_none x = (case x of None \<Rightarrow> raise (Error AttributeError) | Some v \<Rightarrow> ret v)"

text \<open>\<^verbatim>\<open>try: m except FunctionReturn as fr: result = fr.value\<close>\<close>

definition except_FunctionReturn :: "pyval M \<Rightarrow> pyval M" where
  "except_FunctionReturn m s =
     (case m s of
        Some (Raise (FunctionReturn v), s') \<Rightarrow> Some (Val v, s')
      | r \<Rightarrow> r)"

text \<open>
  \<^verbatim>\<open>try: m finally: fin\<close>: \<open>fin\<close> runs on every exit of \<open>m\<close>; an exception of \<open>fin\<close>
  replaces the outcome of \<open>m\<close>.
\<close>

definition try_finally :: "'a M \<Rightarrow> unit M \<Rightarrow> 'a M" where
  "try_finally m fin s =
     (case m s of
        None \<Rightarrow> None
      | Some (out, s') \<Rightarrow>
        (case fin s' of
           None \<Rightarrow> None
         | Some (Val u, s'') \<Rightarrow> Some (out, s'')
         | Some (Raise e, s'') \<Rightarrow> Some (Raise e, s'')))"

text \<open>\<^verbatim>\<open>print(line)\<close>\<close>

definition print :: "string \<Rightarrow> unit M" where
  "print line = modify (\<lambda>s. s\<lparr>stdout := stdout s @ [line]\<rparr>)"

subsection \<open>\<^verbatim>\<open>Scope\<close>\<close>

text \<open>\<^verbatim>\<open>Scope(parent=p)\<close>: a new object at the next unused address.\<close>

definition new_scope :: "nat option \<Rightarrow> nat M" where
  "new_scope p s =
     Some (Val (next_ref s),
       s\<lparr>scopes := (scopes s)(next_ref s := empty_scope p), next_ref := Suc (next_ref s)\<rparr>)"

text \<open>\<^verbatim>\<open>Scope.set_variable\<close>\<close>

definition set_variable_obj :: "string \<Rightarrow> pyval \<Rightarrow> bool \<Rightarrow> scope_obj \<Rightarrow> scope_obj" where
  "set_variable_obj name v is_param sc =
     sc\<lparr>parameters := (if is_param then insert name (parameters sc) else parameters sc),
        variables := (variables sc)(name \<mapsto> v)\<rparr>"

definition set_variable :: "nat \<Rightarrow> string \<Rightarrow> pyval \<Rightarrow> bool \<Rightarrow> unit M" where
  "set_variable r name v is_param =
     modify (\<lambda>s. s\<lparr>scopes := (scopes s)(r := set_variable_obj name v is_param (scopes s r))\<rparr>)"

text \<open>\<^verbatim>\<open>Scope.has_variable\<close>\<close>

definition has_variable :: "scope_obj \<Rightarrow> string \<Rightarrow> bool" where
  "has_variable sc name = (variables sc name \<noteq> None)"

text \<open>
  The walks along the parent links. A chain of parents that never ends makes the source
  loop; the walks are partial functions and \<open>None\<close> is that case.
\<close>

text \<open>\<^verbatim>\<open>Scope.is_parameter\<close>\<close>

partial_function (option) is_parameter :: "(nat \<Rightarrow> scope_obj) \<Rightarrow> nat \<Rightarrow> string \<Rightarrow> bool option" where
  "is_parameter h r name =
     (if name \<in> parameters (h r) then Some True
      else (case parent (h r) of
              Some p \<Rightarrow> is_parameter h p name
            | None \<Rightarrow> Some False))"

text \<open>\<^verbatim>\<open>Scope.get_variable\<close>\<close>

partial_function (option) get_variable ::
    "(nat \<Rightarrow> scope_obj) \<Rightarrow> nat \<Rightarrow> string \<Rightarrow> (error + pyval) option" where
  "get_variable h r name =
     (case variables (h r) name of
        Some v \<Rightarrow> Some (Inr v)
      | None \<Rightarrow>
        (case parent (h r) of
           Some p \<Rightarrow> get_variable h p name
         | None \<Rightarrow>
             Some (Inl (Exception (''Variable '' @ quoted name @ '' not found in any scope'')))))"

text \<open>
  \<^verbatim>\<open>while scope and not scope.has_variable(name): scope = scope.parent\<close>: the nearest
  scope from \<open>sc\<close> upwards that has the name, \<^verbatim>\<open>None\<close> when there is none.
\<close>

partial_function (option) find_scope ::
    "(nat \<Rightarrow> scope_obj) \<Rightarrow> nat option \<Rightarrow> string \<Rightarrow> nat option option" where
  "find_scope h sc name =
     (case sc of
        None \<Rightarrow> Some None
      | Some r \<Rightarrow> if has_variable (h r) name then Some (Some r) else find_scope h (parent (h r)) name)"

text \<open>
  \<^verbatim>\<open>Interpreter._variable_exists_in_child_scopes\<close>, from \<open>current\<close> (at first
  \<^verbatim>\<open>self.current_scope\<close>) upwards; \<^verbatim>\<open>current != scope\<close> compares the objects' identities.
\<close>

partial_function (option) variable_exists_in_child_scopes ::
    "(nat \<Rightarrow> scope_obj) \<Rightarrow> nat option \<Rightarrow> nat \<Rightarrow> string \<Rightarrow> bool option" where
  "variable_exists_in_child_scopes h current scope_ref name =
     (case current of
        None \<Rightarrow> Some False
      | Some r \<Rightarrow>
          if r = scope_ref then Some False
          else if has_variable (h r) name then Some True
          else variable_exists_in_child_scopes h (parent (h r)) scope_ref name)"

text \<open>A walk that ends gives its result; one that does not end has no outcome.\<close>

definition lift_walk :: "(interp \<Rightarrow> 'a option) \<Rightarrow> 'a M" where
  "lift_walk f s = (case f s of None \<Rightarrow> None | Some v \<Rightarrow> Some (Val v, s))"

text \<open>
  \<^verbatim>\<open>for _ in range(levels): if scope.parent is None: raise ...; scope = scope.parent\<close>
  of \<^verbatim>\<open>resolve_scope_for_assignment\<close> and \<^verbatim>\<open>visitScopedIdentifier\<close>: \<open>None\<close> is the raise.
\<close>

fun ancestor :: "(nat \<Rightarrow> scope_obj) \<Rightarrow> nat \<Rightarrow> nat \<Rightarrow> nat option" where
  "ancestor h r 0 = Some r"
| "ancestor h r (Suc n) = (case parent (h r) of None \<Rightarrow> None | Some p \<Rightarrow> ancestor h p n)"

subsection \<open>\<^verbatim>\<open>Interpreter\<close>: environments\<close>

text \<open>\<^verbatim>\<open>Interpreter.push_env\<close>\<close>

definition push_env :: "unit M" where
  "push_env =
     bnd (gets current_scope) (\<lambda>cur.
     bnd (new_scope (Some cur)) (\<lambda>r.
     modify (\<lambda>s. s\<lparr>current_scope := r\<rparr>)))"

text \<open>\<^verbatim>\<open>Interpreter.pop_env\<close>; a \<^verbatim>\<open>Scope\<close> object is always true, so the test is for \<^verbatim>\<open>None\<close>.\<close>

definition pop_env :: "unit M" where
  "pop_env =
     bnd (gets (\<lambda>s. parent (scopes s (current_scope s)))) (\<lambda>p.
     case p of
       Some r \<Rightarrow> modify (\<lambda>s. s\<lparr>current_scope := r\<rparr>)
     | None \<Rightarrow> raise (Error (Exception ''Cannot pop global scope'')))"

text \<open>\<^verbatim>\<open>Interpreter.lookup_variable\<close>\<close>

definition lookup_variable :: "string \<Rightarrow> pyval M" where
  "lookup_variable name =
     bnd (lift_walk (\<lambda>s. get_variable (scopes s) (current_scope s) name)) lift_err"

text \<open>\<^verbatim>\<open>s.split("::")\<close>\<close>

fun split_colons :: "string \<Rightarrow> string \<Rightarrow> string list" where
  "split_colons cur [] = [cur]"
| "split_colons cur [a] = [cur @ [a]]"
| "split_colons cur (a # b # rest) =
     (if a = CHR '':'' \<and> b = CHR '':'' then cur # split_colons [] rest
      else split_colons (cur @ [a]) (b # rest))"

text \<open>\<^verbatim>\<open>Interpreter.resolve_scope_for_assignment\<close>\<close>

definition resolve_scope_for_assignment :: "string \<Rightarrow> (nat \<times> string) M" where
  "resolve_scope_for_assignment scoped_name =
     (let parts = split_colons [] scoped_name;
          var_name = last parts;
          levels = length parts - 1
      in bnd (gets (\<lambda>s. ancestor (scopes s) (current_scope s) levels)) (\<lambda>a.
         case a of
           None \<Rightarrow> raise (Error (Exception
                     (''No parent scope exists while resolving assignment to '' @ quoted scoped_name)))
         | Some r \<Rightarrow> ret (r, var_name)))"

subsection \<open>\<^verbatim>\<open>Interpreter\<close>: the visit methods\<close>

text \<open>
  Every visit method takes \<open>rec\<close>, which is \<^verbatim>\<open>self.visit\<close>, and the children \<open>cs\<close> of its
  context. \<^verbatim>\<open>self.visit(None)\<close> raises an \<^verbatim>\<open>AttributeError\<close>, as does \<^verbatim>\<open>None.getText()\<close>.
\<close>

definition visit_opt :: "(node \<Rightarrow> pyval M) \<Rightarrow> node option \<Rightarrow> pyval M" where
  "visit_opt rec n = bnd (not_none n) rec"

definition token_text :: "string \<Rightarrow> node list \<Rightarrow> string M" where
  "token_text t cs = bnd (not_none (token_at t 0 cs)) (\<lambda>n. ret (getText n))"

definition rule_text :: "string \<Rightarrow> node list \<Rightarrow> string M" where
  "rule_text r cs = bnd (not_none (rule_at r 0 cs)) (\<lambda>n. ret (getText n))"

text \<open>\<^verbatim>\<open>[self.visit(e) for e in es]\<close>\<close>

fun visit_all :: "(node \<Rightarrow> pyval M) \<Rightarrow> node list \<Rightarrow> pyval list M" where
  "visit_all rec [] = ret []"
| "visit_all rec (e # es) = bnd (rec e) (\<lambda>v. bnd (visit_all rec es) (\<lambda>vs. ret (v # vs)))"

text \<open>\<^verbatim>\<open>for stmt in stmts: self.visit(stmt)\<close>\<close>

fun visit_each :: "(node \<Rightarrow> pyval M) \<Rightarrow> node list \<Rightarrow> unit M" where
  "visit_each rec [] = ret ()"
| "visit_each rec (st # sts) = bnd (rec st) (\<lambda>v. visit_each rec sts)"

text \<open>
  \<^verbatim>\<open>ParseTreeVisitor.visitChildren\<close>: the result of the last child, \<^verbatim>\<open>None\<close> without
  children.
\<close>

fun visitChildren :: "(node \<Rightarrow> pyval M) \<Rightarrow> node list \<Rightarrow> pyval M" where
  "visitChildren rec [] = ret NoneVal"
| "visitChildren rec [c] = rec c"
| "visitChildren rec (c # d # cs) = bnd (rec c) (\<lambda>v. visitChildren rec (d # cs))"

text \<open>\<^verbatim>\<open>Interpreter.visitProgram\<close>; it returns the list \<^verbatim>\<open>self.output_lines\<close>.\<close>

definition append_output :: "string \<Rightarrow> unit M" where
  "append_output line = modify (\<lambda>s. s\<lparr>output_lines := output_lines s @ [line]\<rparr>)"

fun program_loop :: "runtime \<Rightarrow> (node \<Rightarrow> pyval M) \<Rightarrow> node list \<Rightarrow> unit M" where
  "program_loop rt rec [] = ret ()"
| "program_loop rt rec (st # sts) =
     bnd (rec st) (\<lambda>result.
     bnd (if result \<noteq> NoneVal \<and> \<not> isinstance_BreakStatement result
          then append_output (py_str rt result) else ret ()) (\<lambda>u.
     program_loop rt rec sts))"

definition visitProgram :: "runtime \<Rightarrow> (node \<Rightarrow> pyval M) \<Rightarrow> node list \<Rightarrow> pyval M" where
  "visitProgram rt rec cs =
     bnd (program_loop rt rec (rule_list ''statement'' cs)) (\<lambda>u.
     gets (\<lambda>s. ListVal (map StrVal (output_lines s))))"

text \<open>
  \<^verbatim>\<open>declared_type = type_ctx.getText().lower() if type_ctx else None\<close> and the test
  \<^verbatim>\<open>if declared_type:\<close>, which the empty string fails too.
\<close>

definition declared_type_of :: "node list \<Rightarrow> string option" where
  "declared_type_of cs = map_option (\<lambda>n. lower (getText n)) (rule_at ''typeAnnotation'' 0 cs)"

definition type_given :: "string option \<Rightarrow> bool" where
  "type_given t = (case t of None \<Rightarrow> False | Some x \<Rightarrow> x \<noteq> [])"

text \<open>
  The value that a declaration stores (lines 131 to 134 and 191 to 194):
  \<^verbatim>\<open>if declared_type: value = self.cast_value(value, declared_type)\<close>,
  \<^verbatim>\<open>elif isinstance(value, float) and value.is_integer(): value = int(value)\<close>.
\<close>

definition convert_declared :: "runtime \<Rightarrow> node list \<Rightarrow> pyval \<Rightarrow> error + pyval" where
  "convert_declared rt cs value =
     (if type_given (declared_type_of cs) then cast_value rt value (declared_type_of cs)
      else Inr (narrow value))"

text \<open>
  \<^verbatim>\<open>Interpreter.visitVariableDeclarationOrAssignment\<close>, the branch of a scoped identifier
  (lines 124 to 150) and the branch of a regular identifier (lines 152 to 215).
\<close>

definition assign_scoped ::
    "runtime \<Rightarrow> (node \<Rightarrow> pyval M) \<Rightarrow> bool \<Rightarrow> string \<Rightarrow> node list \<Rightarrow> pyval M" where
  "assign_scoped rt rec is_declaration scoped_name cs =
     bnd (visit_opt rec (rule_at ''expression'' 0 cs)) (\<lambda>value.
     bnd (lift_err (convert_declared rt cs value)) (\<lambda>value.
     bnd (resolve_scope_for_assignment scoped_name) (\<lambda>(scope_ref, var_name).
     bnd (if is_declaration
          then lift_walk (\<lambda>s. variable_exists_in_child_scopes (scopes s)
                                (Some (current_scope s)) scope_ref var_name)
          else ret False) (\<lambda>shadowed.
     if shadowed
     then raise (Error (InterpreterError
            (''Cannot declare variable '' @ quoted var_name @
             '' in parent scope when it exists in child scope'')
            ''Remove the local declaration first or use a different name''))
     else bnd (set_variable scope_ref var_name value False) (\<lambda>u. ret NoneVal)))))"

definition assign_plain ::
    "runtime \<Rightarrow> (node \<Rightarrow> pyval M) \<Rightarrow> bool \<Rightarrow> string \<Rightarrow> node list \<Rightarrow> pyval M" where
  "assign_plain rt rec is_declaration p cs =
     bnd (token_text ''IDENTIFIER'' cs) (\<lambda>name.
     bnd (visit_opt rec (rule_at ''expression'' 0 cs)) (\<lambda>value.
     if is_declaration then
       bnd (if \<not> (p = ''forInit'' \<or> p = ''forUpdate'') then
              bnd (lift_walk (\<lambda>s. is_parameter (scopes s) (current_scope s) name)) (\<lambda>is_param.
              if is_param
              then raise (Error (InterpreterError
                     (''Cannot redeclare parameter '' @ quoted name @ '' in this scope'')
                     ''Parameters cannot be redeclared in the same function scope''))
              else
                bnd (gets (\<lambda>s. has_variable (scopes s (current_scope s)) name)) (\<lambda>has.
                if has
                then raise (Error (InterpreterError
                       (''Variable '' @ quoted name @ '' is already declared in this scope'')
                       ''Use reassignment syntax instead of redeclaration''))
                else ret ()))
            else ret ()) (\<lambda>u.
       bnd (lift_err (convert_declared rt cs value)) (\<lambda>value.
       bnd (gets current_scope) (\<lambda>cur.
       bnd (set_variable cur name value False) (\<lambda>u. ret NoneVal))))
     else
       bnd (lift_walk (\<lambda>s. find_scope (scopes s) (Some (current_scope s)) name)) (\<lambda>found.
       case found of
         None \<Rightarrow> raise (Error (InterpreterError
                   (''Variable '' @ quoted name @ '' not declared in this scope'')
                   ''Declare the variable with 'Set' before assigning to it''))
       | Some scope_ref \<Rightarrow>
           bnd (if type_given (declared_type_of cs)
                then lift_err (cast_value rt value (declared_type_of cs))
                else ret value) (\<lambda>value.
           bnd (set_variable scope_ref name value False) (\<lambda>u. ret NoneVal)))))"

definition visitVariableDeclarationOrAssignment ::
    "runtime \<Rightarrow> (node \<Rightarrow> pyval M) \<Rightarrow> string \<Rightarrow> node list \<Rightarrow> pyval M" where
  "visitVariableDeclarationOrAssignment rt rec p cs =
     (let is_declaration = (token_at ''SET'' 0 cs \<noteq> None)
      in case rule_at ''scopedIdentifier'' 0 cs of
           Some sid \<Rightarrow> assign_scoped rt rec is_declaration (getText sid) cs
         | None \<Rightarrow> assign_plain rt rec is_declaration p cs)"

text \<open>\<^verbatim>\<open>Interpreter.visitFunctionDeclaration\<close>\<close>

fun collect_params :: "node list \<Rightarrow> string list \<Rightarrow> string list M" where
  "collect_params [] param_list = ret param_list"
| "collect_params (typed_param # ps) param_list =
     bnd (token_text ''IDENTIFIER'' (children typed_param)) (\<lambda>param_name.
     if param_name \<in> set param_list
     then raise (Error (InterpreterError
            (''Duplicate parameter name '' @ quoted param_name)
            ''Parameter names must be unique within a function''))
     else collect_params ps (param_list @ [param_name]))"

definition visitFunctionDeclaration :: "node list \<Rightarrow> pyval M" where
  "visitFunctionDeclaration cs =
     bnd (token_text ''IDENTIFIER'' cs) (\<lambda>name.
     bnd (gets functions_map) (\<lambda>fs.
     if fs name \<noteq> None
     then raise (Error (InterpreterError
            (''Duplicate function declaration '' @ quoted name)
            ''Function names must be unique''))
     else
       bnd (case rule_at ''parameter'' 0 cs of
              None \<Rightarrow> ret []
            | Some pn \<Rightarrow> collect_params (rule_list ''typedParameter'' (children pn)) []) (\<lambda>param_list.
       bnd (gets current_scope) (\<lambda>cur.
       bnd (modify (\<lambda>s. s\<lparr>functions_map := (functions_map s)(name \<mapsto>
              \<lparr>params = param_list, body = rule_at ''blockStatement'' 0 cs, scope = cur\<rparr>)\<rparr>)) (\<lambda>u.
       ret NoneVal)))))"

text \<open>\<^verbatim>\<open>Interpreter.callFunction\<close>\<close>

fun bind_params :: "nat \<Rightarrow> (string \<times> pyval) list \<Rightarrow> unit M" where
  "bind_params local_scope [] = ret ()"
| "bind_params local_scope ((pname, arg) # rest) =
     bnd (set_variable local_scope pname arg True) (\<lambda>u. bind_params local_scope rest)"

text \<open>\<^verbatim>\<open>self.call_stack.pop()\<close>\<close>

definition call_stack_pop :: "unit M" where
  "call_stack_pop =
     bnd (gets call_stack) (\<lambda>st.
     if st = [] then raise (Error IndexError)
     else modify (\<lambda>s. s\<lparr>call_stack := butlast (call_stack s)\<rparr>))"

definition callFunction :: "(node \<Rightarrow> pyval M) \<Rightarrow> string \<Rightarrow> pyval list \<Rightarrow> pyval M" where
  "callFunction rec name args =
     bnd (gets functions_map) (\<lambda>fs.
     case fs name of
       None \<Rightarrow> raise (Error KeyError)
     | Some func \<Rightarrow>
         if length (params func) \<noteq> length args
         then raise (Error (Exception
                (''Function '' @ quoted name @ '' expects '' @ str_int (int (length (params func)))
                 @ '' args, got '' @ str_int (int (length args)))))
         else
           bnd (new_scope (Some (scope func))) (\<lambda>local_scope.
           bnd (bind_params local_scope (zip (params func) args)) (\<lambda>u.
           bnd (gets current_scope) (\<lambda>previous_scope.
           bnd (modify (\<lambda>s. s\<lparr>current_scope := local_scope,
                  call_stack := call_stack s @ [(name, params func, local_scope)]\<rparr>)) (\<lambda>u.
           try_finally
             (except_FunctionReturn
                (bnd (modify (\<lambda>s. s\<lparr>skip_next_block_scope := True\<rparr>)) (\<lambda>u.
                 visit_opt rec (body func))))
             (bnd call_stack_pop (\<lambda>u.
              modify (\<lambda>s. s\<lparr>current_scope := previous_scope\<rparr>))))))))"

text \<open>\<^verbatim>\<open>Interpreter.visitFunctionCall\<close>\<close>

definition visitFunctionCall :: "(node \<Rightarrow> pyval M) \<Rightarrow> node list \<Rightarrow> pyval M" where
  "visitFunctionCall rec cs =
     bnd (token_text ''IDENTIFIER'' cs) (\<lambda>func_name.
     bnd (case rule_at ''argumentList'' 0 cs of
            None \<Rightarrow> ret []
          | Some al \<Rightarrow> visit_all rec (rule_list ''expression'' (children al))) (\<lambda>args.
     callFunction rec func_name args))"

text \<open>
  \<^verbatim>\<open>Interpreter.visitBuiltInFunctions\<close>; the functions of \<^verbatim>\<open>math\<close> take numbers and
  return floats.
\<close>

definition math1 :: "runtime \<Rightarrow> (pyfloat \<Rightarrow> error + pyfloat) \<Rightarrow> pyval \<Rightarrow> error + pyfloat" where
  "math1 rt f v =
     (case as_number v of None \<Rightarrow> Inl TypeError | Some x \<Rightarrow> err_bind (to_float rt x) f)"

definition math2 ::
    "runtime \<Rightarrow> (pyfloat \<Rightarrow> pyfloat \<Rightarrow> error + pyfloat) \<Rightarrow> pyval \<Rightarrow> pyval \<Rightarrow> error + pyfloat" where
  "math2 rt f v w =
     (case (as_number v, as_number w) of
        (Some x, Some y) \<Rightarrow> err_bind (to_float rt x) (\<lambda>a. err_bind (to_float rt y) (\<lambda>b. f a b))
      | _ \<Rightarrow> Inl TypeError)"

definition visitBuiltInFunctions :: "runtime \<Rightarrow> (node \<Rightarrow> pyval M) \<Rightarrow> node list \<Rightarrow> pyval M" where
  "visitBuiltInFunctions rt rec cs =
     (if token_at ''POWER_FUNC'' 0 cs \<noteq> None then
        bnd (visit_opt rec (rule_at ''numExpression'' 0 cs)) (\<lambda>base.
        bnd (visit_opt rec (rule_at ''numExpression'' 1 cs)) (\<lambda>exponent.
        bnd (lift_err (math2 rt (math_pow rt) base exponent)) (\<lambda>q. ret (FloatVal q))))
      else if token_at ''SIN_FUNC'' 0 cs \<noteq> None then
        bnd (visit_opt rec (rule_at ''numExpression'' 0 cs)) (\<lambda>value.
        bnd (lift_err (math1 rt (math_sin rt) value)) (\<lambda>q. ret (FloatVal q)))
      else if token_at ''COS_FUNC'' 0 cs \<noteq> None then
        bnd (visit_opt rec (rule_at ''numExpression'' 0 cs)) (\<lambda>value.
        bnd (lift_err (math1 rt (math_cos rt) value)) (\<lambda>q. ret (FloatVal q)))
      else if token_at ''TAN_FUNC'' 0 cs \<noteq> None then
        bnd (visit_opt rec (rule_at ''numExpression'' 0 cs)) (\<lambda>value.
        bnd (lift_err (math1 rt (math_tan rt) value)) (\<lambda>q. ret (FloatVal q)))
      else if token_at ''CTAN_FUNC'' 0 cs \<noteq> None then
        bnd (visit_opt rec (rule_at ''numExpression'' 0 cs)) (\<lambda>value.
        bnd (lift_err (math1 rt (math_tan rt) value)) (\<lambda>tan_val.
        if float_is_zero tan_val then raise (Error ZeroDivisionError)
        else lift_err (py_truediv rt (IntVal 1) (FloatVal tan_val))))
      else raise (Error (Exception ''Unknown built-in function'')))"

text \<open>\<^verbatim>\<open>Interpreter.visitIdentifier\<close>\<close>

definition visitIdentifier :: "node list \<Rightarrow> pyval M" where
  "visitIdentifier cs =
     (let var_name = concat (map getText cs)
      in bnd (gets interp_variables) (\<lambda>vs.
         case vs var_name of
           Some v \<Rightarrow> ret v
         | None \<Rightarrow> raise (Error (Exception (''Undefined variable: '' @ var_name)))))"

text \<open>\<^verbatim>\<open>Interpreter.visitScopedIdentifier\<close>\<close>

definition visitScopedIdentifier :: "node list \<Rightarrow> pyval M" where
  "visitScopedIdentifier cs =
     (let levels = length (token_list ''PARENT_SCOPE'' cs)
      in bnd (token_text ''IDENTIFIER'' cs) (\<lambda>name.
         bnd (gets (\<lambda>s. ancestor (scopes s) (current_scope s) levels)) (\<lambda>a.
         case a of
           None \<Rightarrow> raise (Error (InterpreterError
                     (''No parent scope exists while resolving '' @ quoted (''parent::'' @ name))
                     ''Too many 'parent::' references, the parent scope doesn't exist''))
         | Some r \<Rightarrow> bnd (lift_walk (\<lambda>s. get_variable (scopes s) r name)) lift_err)))"

text \<open>\<^verbatim>\<open>Interpreter.visitBlockStatement\<close>; both paths return \<^verbatim>\<open>None\<close>.\<close>

definition visitBlockStatement :: "(node \<Rightarrow> pyval M) \<Rightarrow> node list \<Rightarrow> pyval M" where
  "visitBlockStatement rec cs =
     bnd (gets skip_next_block_scope) (\<lambda>skip.
     if skip then
       bnd (modify (\<lambda>s. s\<lparr>skip_next_block_scope := False\<rparr>)) (\<lambda>u.
       bnd (visit_each rec (rule_list ''statement'' cs)) (\<lambda>u.
       ret NoneVal))
     else
       bnd push_env (\<lambda>u.
       bnd (visit_each rec (rule_list ''statement'' cs)) (\<lambda>u.
       bnd pop_env (\<lambda>u.
       ret NoneVal))))"

text \<open>\<^verbatim>\<open>Interpreter.visitReturnStatement\<close>\<close>

definition visitReturnStatement :: "(node \<Rightarrow> pyval M) \<Rightarrow> node list \<Rightarrow> pyval M" where
  "visitReturnStatement rec cs =
     bnd (visit_opt rec (rule_at ''expression'' 0 cs)) (\<lambda>value.
     raise (FunctionReturn value))"

text \<open>\<^verbatim>\<open>Interpreter.visitStatement\<close>\<close>

definition visitStatement :: "runtime \<Rightarrow> (node \<Rightarrow> pyval M) \<Rightarrow> node list \<Rightarrow> pyval M" where
  "visitStatement rt rec cs =
     bnd (case first_rule [''variableDeclarationOrAssignment'', ''functionDeclaration'',
                 ''functionCall'', ''returnStatement'', ''displayStatement'', ''ifStatement'',
                 ''loopStatement'', ''forLoop'', ''whileLoop'', ''blockStatement'',
                 ''operation''] cs of
            None \<Rightarrow> ret NoneVal
          | Some n \<Rightarrow> rec n) (\<lambda>result.
     bnd (if rule_at ''functionCall'' 0 cs \<noteq> None \<and> result \<noteq> NoneVal
          then append_output (''Result: '' @ py_str rt result) else ret ()) (\<lambda>u.
     ret result))"

text \<open>\<^verbatim>\<open>Interpreter.visitReassignment\<close>\<close>

definition visitReassignment :: "runtime \<Rightarrow> (node \<Rightarrow> pyval M) \<Rightarrow> node list \<Rightarrow> pyval M" where
  "visitReassignment rt rec cs =
     bnd (rule_text ''leftHandSide'' cs) (\<lambda>name.
     bnd (visit_opt rec (rule_at ''expression'' 0 cs)) (\<lambda>value.
     bnd (lift_walk (\<lambda>s. find_scope (scopes s) (Some (current_scope s)) name)) (\<lambda>found.
     case found of
       None \<Rightarrow> raise (Error (Exception (''Variable '' @ quoted name @ '' not defined.'')))
     | Some r \<Rightarrow>
         bnd (bnd (lift_walk (\<lambda>s. get_variable (scopes s) r name)) lift_err) (\<lambda>current_value.
         bnd (if token_at ''ADD_TO'' 0 cs \<noteq> None then
                bnd (lift_err (py_add rt current_value value)) (\<lambda>v. set_variable r name v False)
              else if token_at ''SUBTRACT_FROM'' 0 cs \<noteq> None then
                bnd (lift_err (py_sub rt current_value value)) (\<lambda>v. set_variable r name v False)
              else if token_at ''TIMES'' 0 cs \<noteq> None then
                bnd (lift_err (py_mul rt current_value value)) (\<lambda>v. set_variable r name v False)
              else if token_at ''DIVIDE_FROM'' 0 cs \<noteq> None then
                bnd (lift_err (py_truediv rt current_value value)) (\<lambda>v. set_variable r name v False)
              else ret ()) (\<lambda>u.
         bnd (lift_walk (\<lambda>s. get_variable (scopes s) r name)) lift_err)))))"

text \<open>\<^verbatim>\<open>Interpreter.visitDisplayStatement\<close>\<close>

definition visitDisplayStatement :: "runtime \<Rightarrow> (node \<Rightarrow> pyval M) \<Rightarrow> node list \<Rightarrow> pyval M" where
  "visitDisplayStatement rt rec cs =
     bnd (visit_all rec (rule_list ''expression'' cs)) (\<lambda>results.
     bnd (gets debug) (\<lambda>dbg.
     bnd (if dbg then print (''DEBUG: Displaying '' @ py_repr rt (ListVal results)) else ret ()) (\<lambda>u.
     bnd (append_output (intersperse '' '' (map (py_str rt) results))) (\<lambda>u.
     bnd (print (intersperse '' '' (map (py_str rt) results))) (\<lambda>u.
     ret NoneVal)))))"

text \<open>
  \<^verbatim>\<open>Interpreter.visitNumExpression\<close>: the operator on the two values (lines 491 to 500),
  \<open>None\<close> for an operator that is neither \<^verbatim>\<open>+\<close> nor \<^verbatim>\<open>-\<close>, and the method.
\<close>

definition num_op :: "runtime \<Rightarrow> string \<Rightarrow> pyval \<Rightarrow> pyval \<Rightarrow> (error + pyval) option" where
  "num_op rt op left right =
     (if op = ''+'' then
        (if isinstance_str left \<or> isinstance_str right
         then Some (Inr (StrVal (py_str rt left @ py_str rt right)))
         else Some (py_add rt left right))
      else if op = ''-'' then
        (if isinstance_int_float left \<and> isinstance_int_float right
         then Some (py_sub rt left right)
         else Some (Inl TypeError))
      else None)"

definition visitNumExpression :: "runtime \<Rightarrow> (node \<Rightarrow> pyval M) \<Rightarrow> node list \<Rightarrow> pyval M" where
  "visitNumExpression rt rec cs =
     (if length cs = 3 then
        bnd (rec (cs ! 0)) (\<lambda>left.
        bnd (rec (cs ! 2)) (\<lambda>right.
        case num_op rt (getText (cs ! 1)) left right of
          Some r \<Rightarrow> lift_err r
        | None \<Rightarrow> visit_opt rec (child_at cs 0)))
      else visit_opt rec (child_at cs 0))"

text \<open>\<^verbatim>\<open>Interpreter.visitTerm\<close>, in the same way (lines 508 to 516).\<close>

definition term_op :: "runtime \<Rightarrow> string \<Rightarrow> pyval \<Rightarrow> pyval \<Rightarrow> (error + pyval) option" where
  "term_op rt op left right =
     (if op = ''*'' then Some (py_mul rt left right)
      else if op = ''/'' then
        (if isinstance_int right \<and> \<not> isinstance_float left
         then Some (py_floordiv rt left right)
         else Some (py_truediv rt left right))
      else if op = ''%'' then Some (py_mod rt left right)
      else None)"

definition visitTerm :: "runtime \<Rightarrow> (node \<Rightarrow> pyval M) \<Rightarrow> node list \<Rightarrow> pyval M" where
  "visitTerm rt rec cs =
     (if length cs = 3 then
        bnd (rec (cs ! 0)) (\<lambda>left.
        bnd (rec (cs ! 2)) (\<lambda>right.
        case term_op rt (getText (cs ! 1)) left right of
          Some r \<Rightarrow> lift_err r
        | None \<Rightarrow> visit_opt rec (child_at cs 0)))
      else visit_opt rec (child_at cs 0))"

text \<open>\<^verbatim>\<open>visitUnaryPlus\<close>, \<^verbatim>\<open>visitUnaryMinus\<close>\<close>

definition visitUnaryPlus :: "(node \<Rightarrow> pyval M) \<Rightarrow> node list \<Rightarrow> pyval M" where
  "visitUnaryPlus rec cs = bnd (visit_opt rec (rule_at ''factor'' 0 cs)) (\<lambda>v. lift_err (py_pos v))"

definition visitUnaryMinus :: "(node \<Rightarrow> pyval M) \<Rightarrow> node list \<Rightarrow> pyval M" where
  "visitUnaryMinus rec cs = bnd (visit_opt rec (rule_at ''factor'' 0 cs)) (\<lambda>v. lift_err (py_neg v))"

text \<open>\<^verbatim>\<open>visitFactorNumber\<close>\<close>

definition visitFactorNumber :: "runtime \<Rightarrow> node list \<Rightarrow> pyval M" where
  "visitFactorNumber rt cs =
     bnd (token_text ''NUMBER'' cs) (\<lambda>text.
     if CHR ''.'' \<in> set text
     then (case float_of_str rt text of None \<Rightarrow> raise (Error ValueError) | Some f \<Rightarrow> ret (FloatVal f))
     else (case int_of_str text of None \<Rightarrow> raise (Error ValueError) | Some i \<Rightarrow> ret (IntVal i)))"

text \<open>\<^verbatim>\<open>visitFactorIdentifier\<close>\<close>

definition visitFactorIdentifier :: "node list \<Rightarrow> pyval M" where
  "visitFactorIdentifier cs = bnd (token_text ''IDENTIFIER'' cs) lookup_variable"

text \<open>\<^verbatim>\<open>s.strip('"')\<close> and \<^verbatim>\<open>visitFactorString\<close>\<close>

definition strip_quotes :: "string \<Rightarrow> string" where
  "strip_quotes s =
     rev (dropWhile (\<lambda>c. c = CHR 0x22) (rev (dropWhile (\<lambda>c. c = CHR 0x22) s)))"

definition visitFactorString :: "node list \<Rightarrow> pyval M" where
  "visitFactorString cs = bnd (token_text ''STRING'' cs) (\<lambda>text. ret (StrVal (strip_quotes text)))"

text \<open>
  \<^verbatim>\<open>visitFactorParens\<close>, \<^verbatim>\<open>visitFactorFunctionCall\<close>, \<^verbatim>\<open>visitFactorOperation\<close>,
  \<^verbatim>\<open>visitFactorscopedIdentifier\<close>, \<^verbatim>\<open>visitLogicPrimaryWrap\<close>, \<^verbatim>\<open>visitLogicParen\<close>:
  \<^verbatim>\<open>return self.visit(ctx.rule())\<close>
\<close>

definition visit_rule :: "(node \<Rightarrow> pyval M) \<Rightarrow> string \<Rightarrow> node list \<Rightarrow> pyval M" where
  "visit_rule rec r cs = visit_opt rec (rule_at r 0 cs)"

text \<open>\<^verbatim>\<open>Interpreter.visitOperation\<close>\<close>

definition visitOperation :: "runtime \<Rightarrow> node list \<Rightarrow> pyval M" where
  "visitOperation rt cs =
     bnd (token_text ''IDENTIFIER'' cs) (\<lambda>var_name.
     bnd (gets memory) (\<lambda>m.
     case m var_name of
       None \<Rightarrow> raise (Error (Exception (''Variable '' @ quoted var_name @ '' not defined.'')))
     | Some current_value \<Rightarrow>
         if \<not> isinstance_int_float current_value
         then raise (Error (Exception
                (''Cannot increment/decrement non-numeric variable '' @ quoted var_name @ ''.'')))
         else
           bnd (if token_at ''INCREMENT'' 0 cs \<noteq> None then
                  bnd (lift_err (py_add rt current_value (IntVal 1))) (\<lambda>v.
                  modify (\<lambda>s. s\<lparr>memory := (memory s)(var_name \<mapsto> v)\<rparr>))
                else if token_at ''DECREMENT'' 0 cs \<noteq> None then
                  bnd (lift_err (py_sub rt current_value (IntVal 1))) (\<lambda>v.
                  modify (\<lambda>s. s\<lparr>memory := (memory s)(var_name \<mapsto> v)\<rparr>))
                else ret ()) (\<lambda>u.
           bnd (gets (\<lambda>s. memory s var_name)) (\<lambda>r.
           case r of None \<Rightarrow> raise (Error KeyError) | Some v \<Rightarrow> ret v))))"

text \<open>\<^verbatim>\<open>Interpreter.evaluateBinaryOp\<close>\<close>

definition lift_bool :: "error + bool \<Rightarrow> error + pyval" where
  "lift_bool r = (case r of Inl e \<Rightarrow> Inl e | Inr b \<Rightarrow> Inr (BoolVal b))"

definition evaluateBinaryOp :: "runtime \<Rightarrow> pyval \<Rightarrow> pyval \<Rightarrow> string \<Rightarrow> error + pyval" where
  "evaluateBinaryOp rt left right op =
     (if op = ''+'' then py_add rt left right
      else if op = ''-'' then py_sub rt left right
      else if op = ''*'' then py_mul rt left right
      else if op = ''/'' then py_truediv rt left right
      else if op = ''%'' then py_mod rt left right
      else if op = ''<'' then lift_bool (py_compare Lt left right)
      else if op = ''>'' then lift_bool (py_compare Gt left right)
      else if op = ''=='' then Inr (BoolVal (py_eq left right))
      else if op = ''!='' then Inr (BoolVal (\<not> py_eq left right))
      else if op = ''<='' then lift_bool (py_compare Le left right)
      else if op = ''>='' then lift_bool (py_compare Ge left right)
      else Inl (Exception (''Unknown operator '' @ op)))"

text \<open>\<^verbatim>\<open>visitNumComparison\<close>\<close>

definition visitNumComparison :: "runtime \<Rightarrow> (node \<Rightarrow> pyval M) \<Rightarrow> node list \<Rightarrow> pyval M" where
  "visitNumComparison rt rec cs =
     bnd (visit_opt rec (rule_at ''numExpression'' 0 cs)) (\<lambda>left.
     bnd (visit_opt rec (rule_at ''numExpression'' 1 cs)) (\<lambda>right.
     bnd (rule_text ''comparisonOp'' cs) (\<lambda>op.
     lift_err (evaluateBinaryOp rt left right op))))"

text \<open>\<^verbatim>\<open>visitStringComparison\<close> and \<^verbatim>\<open>visitMatrixComparison\<close>, over the rule \<open>r\<close>\<close>

definition visitEqComparison :: "(node \<Rightarrow> pyval M) \<Rightarrow> string \<Rightarrow> node list \<Rightarrow> pyval M" where
  "visitEqComparison rec r cs =
     bnd (visit_opt rec (rule_at r 0 cs)) (\<lambda>left.
     bnd (visit_opt rec (rule_at r 1 cs)) (\<lambda>right.
     bnd (not_none (child_at cs 1)) (\<lambda>opn.
     if getText opn = ''=='' then ret (BoolVal (py_eq left right))
     else ret (BoolVal (\<not> py_eq left right)))))"

text \<open>\<^verbatim>\<open>visitMatrixExpression\<close>, \<^verbatim>\<open>visitMatrixAtom\<close>, \<^verbatim>\<open>visitMatrixConstruction\<close>, \<^verbatim>\<open>visitValue\<close>\<close>

definition visitMatrixExpression :: "runtime \<Rightarrow> (node \<Rightarrow> pyval M) \<Rightarrow> node list \<Rightarrow> pyval M" where
  "visitMatrixExpression rt rec cs =
     bnd (visit_opt rec (rule_at ''matrixAtom'' 0 cs)) (\<lambda>matrix.
     if token_at ''INVERT_MATRIX'' 0 cs \<noteq> None then lift_err (invert_matrix rt matrix)
     else if token_at ''TRANSPOSITION'' 0 cs \<noteq> None then lift_err (transpose_matrix matrix)
     else ret matrix)"

definition visitMatrixAtom :: "(node \<Rightarrow> pyval M) \<Rightarrow> node list \<Rightarrow> pyval M" where
  "visitMatrixAtom rec cs =
     (case token_at ''IDENTIFIER'' 0 cs of
        Some t \<Rightarrow> lookup_variable (getText t)
      | None \<Rightarrow> visit_opt rec (rule_at ''matrixConstruction'' 0 cs))"

fun matrix_rows :: "runtime \<Rightarrow> (node \<Rightarrow> pyval M) \<Rightarrow> node list \<Rightarrow> pyval list M" where
  "matrix_rows rt rec [] = ret []"
| "matrix_rows rt rec (rowCtx # rest) =
     bnd (visit_all rec (rule_list ''value'' (children rowCtx))) (\<lambda>row.
     bnd (print (''DEBUG row: '' @ py_repr rt (ListVal row))) (\<lambda>u.
     bnd (matrix_rows rt rec rest) (\<lambda>rows.
     ret (ListVal row # rows))))"

definition visitMatrixConstruction :: "runtime \<Rightarrow> (node \<Rightarrow> pyval M) \<Rightarrow> node list \<Rightarrow> pyval M" where
  "visitMatrixConstruction rt rec cs =
     bnd (matrix_rows rt rec (rule_list ''row'' cs)) (\<lambda>rows. ret (ListVal rows))"

definition contains_list :: "pyval \<Rightarrow> bool" where
  "contains_list v = (case v of ListVal rows \<Rightarrow> list_ex isinstance_list rows | _ \<Rightarrow> False)"

definition visitValue :: "runtime \<Rightarrow> node list \<Rightarrow> pyval M" where
  "visitValue rt cs =
     (case token_at ''NUMBER'' 0 cs of
        Some t \<Rightarrow>
          (case float_of_str rt (getText t) of
             None \<Rightarrow> raise (Error ValueError)
           | Some f \<Rightarrow> ret (FloatVal f))
      | None \<Rightarrow>
          (case token_at ''IDENTIFIER'' 0 cs of
             Some t \<Rightarrow>
               bnd (lookup_variable (getText t)) (\<lambda>value.
               if contains_list value
               then raise (Error (Exception ''Matrix cannot contain another matrix as an element''))
               else ret value)
           | None \<Rightarrow>
               if rule_at ''matrixExpression'' 0 cs \<noteq> None
               then raise (Error (Exception ''Matrix cannot contain another matrix as an element''))
               else raise (Error (Exception
                      ''Invalid matrix value: must be a number or scalar variable''))))"

text \<open>\<^verbatim>\<open>Interpreter.visitCastExpression\<close>\<close>

definition visitCastExpression :: "runtime \<Rightarrow> (node \<Rightarrow> pyval M) \<Rightarrow> node list \<Rightarrow> pyval M" where
  "visitCastExpression rt rec cs =
     bnd (rule_text ''typeAnnotation'' cs) (\<lambda>text.
     bnd (visit_opt rec (rule_at ''factor'' 0 cs)) (\<lambda>value.
     if lower text = ''int'' then
       (case value of
          BoolVal b \<Rightarrow> ret (IntVal (if b then 1 else 0))
        | _ \<Rightarrow>
          (case err_bind (py_float rt value) int_of_float of
             Inr i \<Rightarrow> ret (IntVal i)
           | Inl e \<Rightarrow>
               if e = ValueError
               then raise (Error (Exception (''Cannot cast '' @ py_str rt value @ '' to int'')))
               else raise (Error e)))
     else if lower text = ''float'' then
       (case py_float rt value of
          Inr f \<Rightarrow> ret (FloatVal f)
        | Inl e \<Rightarrow>
            if e = ValueError
            then raise (Error (Exception (''Cannot cast '' @ py_str rt value @ '' to float'')))
            else raise (Error e))
     else if lower text = ''bool'' then
       (case value of
          StrVal s \<Rightarrow> ret (BoolVal (lower s = ''true''))
        | _ \<Rightarrow> ret (BoolVal (truthy value)))
     else if lower text = ''string'' then ret (StrVal (py_str rt value))
     else raise (Error (Exception (''Unsupported cast type: '' @ lower text)))))"

text \<open>\<^verbatim>\<open>visitLogicOr\<close>, \<^verbatim>\<open>visitLogicAnd\<close>, \<^verbatim>\<open>visitLogicNot\<close>, \<^verbatim>\<open>visitLogicIdentifier\<close>\<close>

fun logic_or :: "(node \<Rightarrow> pyval M) \<Rightarrow> node list \<Rightarrow> pyval M" where
  "logic_or rec [] = ret (BoolVal False)"
| "logic_or rec (n # ns) =
     bnd (rec n) (\<lambda>v. if truthy v then ret (BoolVal True) else logic_or rec ns)"

fun logic_and :: "(node \<Rightarrow> pyval M) \<Rightarrow> node list \<Rightarrow> pyval M" where
  "logic_and rec [] = ret (BoolVal True)"
| "logic_and rec (n # ns) =
     bnd (rec n) (\<lambda>v. if \<not> truthy v then ret (BoolVal False) else logic_and rec ns)"

definition visitLogicOr :: "(node \<Rightarrow> pyval M) \<Rightarrow> node list \<Rightarrow> pyval M" where
  "visitLogicOr rec cs = logic_or rec (rule_list ''boolAndExpression'' cs)"

definition visitLogicAnd :: "(node \<Rightarrow> pyval M) \<Rightarrow> node list \<Rightarrow> pyval M" where
  "visitLogicAnd rec cs = logic_and rec (rule_list ''boolNotExpression'' cs)"

definition visitLogicNot :: "(node \<Rightarrow> pyval M) \<Rightarrow> node list \<Rightarrow> pyval M" where
  "visitLogicNot rec cs =
     bnd (visit_opt rec (rule_at ''boolNotExpression'' 0 cs)) (\<lambda>v. ret (BoolVal (\<not> truthy v)))"

definition visitLogicIdentifier :: "node list \<Rightarrow> pyval M" where
  "visitLogicIdentifier cs =
     bnd (token_text ''IDENTIFIER'' cs) (\<lambda>name.
     bnd (lookup_variable name) (\<lambda>v. ret (BoolVal (truthy v))))"

text \<open>\<^verbatim>\<open>Interpreter.visitIfStatement\<close>\<close>

definition stmt_or_block :: "node list \<Rightarrow> nat \<Rightarrow> node option" where
  "stmt_or_block cs i =
     (case rule_at ''statement'' i cs of Some n \<Rightarrow> Some n | None \<Rightarrow> rule_at ''blockStatement'' i cs)"

text \<open>
  The loop over the \<^verbatim>\<open>ELSE_IF\<close> tokens from index \<open>i\<close> with \<open>n\<close> rounds left, then \<open>k\<close>;
  a true condition without a body goes on with the next round.
\<close>

fun else_if_chain :: "(node \<Rightarrow> pyval M) \<Rightarrow> node list \<Rightarrow> nat \<Rightarrow> nat \<Rightarrow> pyval M \<Rightarrow> pyval M" where
  "else_if_chain rec cs i 0 k = k"
| "else_if_chain rec cs i (Suc n) k =
     bnd (visit_opt rec (rule_at ''boolExpression'' (i + 1) cs)) (\<lambda>c.
     if truthy c then
       (case stmt_or_block cs (i + 1) of
          Some b \<Rightarrow> rec b
        | None \<Rightarrow> else_if_chain rec cs (i + 1) n k)
     else else_if_chain rec cs (i + 1) n k)"

definition visitIfStatement :: "(node \<Rightarrow> pyval M) \<Rightarrow> node list \<Rightarrow> pyval M" where
  "visitIfStatement rec cs =
     (let n_else_if = length (token_list ''ELSE_IF'' cs);
          else_part =
            (if token_list ''ELSE'' cs \<noteq> [] then
               (case stmt_or_block cs (1 + n_else_if) of
                  Some b \<Rightarrow> rec b
                | None \<Rightarrow> ret NoneVal)
             else ret NoneVal);
          rest = else_if_chain rec cs 0 n_else_if else_part
      in bnd (visit_opt rec (rule_at ''boolExpression'' 0 cs)) (\<lambda>c.
         if truthy c then
           (case stmt_or_block cs 0 of Some b \<Rightarrow> rec b | None \<Rightarrow> rest)
         else rest))"

text \<open>\<^verbatim>\<open>Interpreter.visitLoopIfStatement\<close>\<close>

definition loop_branch :: "node list \<Rightarrow> nat \<Rightarrow> node option" where
  "loop_branch cs i =
     (case rule_at ''loopStatements'' i cs of Some n \<Rightarrow> Some n | None \<Rightarrow> rule_at ''statement'' i cs)"

fun loop_if_chain :: "(node \<Rightarrow> pyval M) \<Rightarrow> node list \<Rightarrow> nat \<Rightarrow> nat \<Rightarrow> pyval M \<Rightarrow> pyval M" where
  "loop_if_chain rec cs i 0 k = k"
| "loop_if_chain rec cs i (Suc n) k =
     bnd (visit_opt rec (rule_at ''boolExpression'' i cs)) (\<lambda>c.
     if truthy c then
       (case loop_branch cs i of
          Some b \<Rightarrow> rec b
        | None \<Rightarrow> loop_if_chain rec cs (i + 1) n k)
     else loop_if_chain rec cs (i + 1) n k)"

definition visitLoopIfStatement :: "(node \<Rightarrow> pyval M) \<Rightarrow> node list \<Rightarrow> pyval M" where
  "visitLoopIfStatement rec cs =
     (let n_conds = length (rule_list ''boolExpression'' cs);
          else_part =
            (if token_list ''ELSE'' cs \<noteq> [] then
               (case loop_branch cs n_conds of
                  Some b \<Rightarrow> rec b
                | None \<Rightarrow> ret NoneVal)
             else ret NoneVal);
          rest = loop_if_chain rec cs 1 (n_conds - 1) else_part
      in bnd (visit_opt rec (rule_at ''boolExpression'' 0 cs)) (\<lambda>c.
         if truthy c then
           (case loop_branch cs 0 of Some b \<Rightarrow> rec b | None \<Rightarrow> rest)
         else rest))"

text \<open>\<^verbatim>\<open>Interpreter.visitLoopStatements\<close>\<close>

definition visitLoopStatements :: "(node \<Rightarrow> pyval M) \<Rightarrow> node list \<Rightarrow> pyval M" where
  "visitLoopStatements rec cs =
     (case first_rule [''loopStatement'', ''variableDeclarationOrAssignment'',
             ''functionDeclaration'', ''returnStatement'', ''ifStatement'', ''blockStatement'',
             ''displayStatement''] cs of
        None \<Rightarrow> ret NoneVal
      | Some n \<Rightarrow> rec n)"

text \<open>
  \<^verbatim>\<open>Interpreter.visitWhileLoop\<close>. \<open>while_body\<close> is the \<^verbatim>\<open>for\<close> loop over the statements of
  one iteration: \<open>Some v\<close> when it has popped the scope and returns \<open>v\<close> from the method,
  \<open>None\<close> when the statements are through. After an iteration that went through, the
  scope is popped and the loop, with its test, is the visit of the same node \<open>self\<close>
  again.
\<close>

fun while_body :: "(node \<Rightarrow> pyval M) \<Rightarrow> node list \<Rightarrow> pyval option M" where
  "while_body rec [] = ret None"
| "while_body rec (stmt # stmts) =
     bnd (rec stmt) (\<lambda>result.
     if isinstance_BreakStatement result then bnd pop_env (\<lambda>u. ret (Some NoneVal))
     else if result \<noteq> NoneVal then bnd pop_env (\<lambda>u. ret (Some result))
     else while_body rec stmts)"

definition visitWhileLoop :: "(node \<Rightarrow> pyval M) \<Rightarrow> node \<Rightarrow> node list \<Rightarrow> pyval M" where
  "visitWhileLoop rec self cs =
     bnd (visit_opt rec (rule_at ''boolExpression'' 0 cs)) (\<lambda>c.
     if truthy c then
       bnd push_env (\<lambda>u.
       bnd (while_body rec (rule_list ''loopStatements'' cs)) (\<lambda>r.
       case r of
         Some v \<Rightarrow> ret v
       | None \<Rightarrow> bnd pop_env (\<lambda>u. rec self)))
     else ret NoneVal)"

text \<open>
  \<^verbatim>\<open>Interpreter.visitForLoop\<close>. \<^verbatim>\<open>ctx.cond\<close>, the child that the grammar labels \<open>cond\<close>, is
  taken to be the \<^verbatim>\<open>boolExpression\<close> child. After an iteration the loop is the visit of
  \<open>again\<close>, the same node without its \<^verbatim>\<open>forInit\<close> child.
\<close>

definition for_loop :: "(node \<Rightarrow> pyval M) \<Rightarrow> node \<Rightarrow> node list \<Rightarrow> pyval M" where
  "for_loop rec again cs =
     bnd (visit_opt rec (rule_at ''boolExpression'' 0 cs)) (\<lambda>c.
     if truthy c then
       bnd push_env (\<lambda>u.
       bnd (visit_opt rec (rule_at ''forBody'' 0 cs)) (\<lambda>result.
       if isinstance_BreakStatement result then bnd pop_env (\<lambda>u. ret NoneVal)
       else
         bnd pop_env (\<lambda>u.
         bnd (visit_opt rec (rule_at ''boolExpression'' 0 cs)) (\<lambda>c2.
         bnd (if truthy c2 then bnd (visit_opt rec (rule_at ''forUpdate'' 0 cs)) (\<lambda>v. ret ())
              else ret ()) (\<lambda>u.
         rec again)))))
     else ret NoneVal)"

definition visitForLoop :: "(node \<Rightarrow> pyval M) \<Rightarrow> node \<Rightarrow> node list \<Rightarrow> pyval M" where
  "visitForLoop rec again cs =
     bnd (case rule_at ''forInit'' 0 cs of
            Some i \<Rightarrow> bnd (rec i) (\<lambda>v. ret ())
          | None \<Rightarrow> ret ()) (\<lambda>u.
     for_loop rec again cs)"

text \<open>\<^verbatim>\<open>Interpreter.visitExpression\<close>\<close>

definition visitExpression :: "(node \<Rightarrow> pyval M) \<Rightarrow> node list \<Rightarrow> pyval M" where
  "visitExpression rec cs =
     (case first_rule [''numExpression'', ''boolExpression'', ''functionCall'',
             ''builtInFunctions'', ''matrixExpression'', ''stringExpression'',
             ''scopedIdentifier''] cs of
        Some n \<Rightarrow> rec n
      | None \<Rightarrow>
          (case token_at ''STRING'' 0 cs of
             Some t \<Rightarrow> ret (StrVal (strip_quotes (getText t)))
           | None \<Rightarrow>
               (case token_at ''IDENTIFIER'' 0 cs of
                  Some t \<Rightarrow> lookup_variable (getText t)
                | None \<Rightarrow> ret NoneVal)))"

subsection \<open>\<^verbatim>\<open>self.visit\<close>\<close>

text \<open>
  \<^verbatim>\<open>tree.accept(self)\<close>: a terminal node gives \<^verbatim>\<open>None\<close> (\<^verbatim>\<open>visitTerminal\<close>); a rule context
  calls the visit method for its label, which is \<^verbatim>\<open>visitChildren\<close> unless the
  interpreter defines it.
\<close>

fun visit_step :: "runtime \<Rightarrow> (node \<Rightarrow> pyval M) \<Rightarrow> node \<Rightarrow> pyval M" where
  "visit_step rt rec (TerminalNode t x) = ret NoneVal"
| "visit_step rt rec (RuleNode r l p cs) =
     (if l = ''Program'' then visitProgram rt rec cs
      else if l = ''VariableDeclarationOrAssignment''
        then visitVariableDeclarationOrAssignment rt rec p cs
      else if l = ''FunctionDeclaration'' then visitFunctionDeclaration cs
      else if l = ''FunctionCall'' then visitFunctionCall rec cs
      else if l = ''BuiltInFunctions'' then visitBuiltInFunctions rt rec cs
      else if l = ''Identifier'' then visitIdentifier cs
      else if l = ''ScopedIdentifier'' then visitScopedIdentifier cs
      else if l = ''BlockStatement'' then visitBlockStatement rec cs
      else if l = ''ReturnStatement'' then visitReturnStatement rec cs
      else if l = ''Statement'' then visitStatement rt rec cs
      else if l = ''Reassignment'' then visitReassignment rt rec cs
      else if l = ''DisplayStatement'' then visitDisplayStatement rt rec cs
      else if l = ''NumExpression'' then visitNumExpression rt rec cs
      else if l = ''Term'' then visitTerm rt rec cs
      else if l = ''UnaryPlus'' then visitUnaryPlus rec cs
      else if l = ''UnaryMinus'' then visitUnaryMinus rec cs
      else if l = ''FactorNumber'' then visitFactorNumber rt cs
      else if l = ''FactorIdentifier'' then visitFactorIdentifier cs
      else if l = ''FactorString'' then visitFactorString cs
      else if l = ''FactorParens'' then visit_rule rec ''numExpression'' cs
      else if l = ''FactorFunctionCall'' then visit_rule rec ''functionCall'' cs
      else if l = ''FactorOperation'' then visit_rule rec ''operation'' cs
      else if l = ''FactorscopedIdentifier'' then visit_rule rec ''scopedIdentifier'' cs
      else if l = ''Operation'' then visitOperation rt cs
      else if l = ''NumComparison'' then visitNumComparison rt rec cs
      else if l = ''StringComparison'' then visitEqComparison rec ''stringExpression'' cs
      else if l = ''MatrixComparison'' then visitEqComparison rec ''matrixExpression'' cs
      else if l = ''MatrixExpression'' then visitMatrixExpression rt rec cs
      else if l = ''MatrixAtom'' then visitMatrixAtom rec cs
      else if l = ''MatrixConstruction'' then visitMatrixConstruction rt rec cs
      else if l = ''Value'' then visitValue rt cs
      else if l = ''BoolExpression'' then visitChildren rec cs
      else if l = ''CastExpression'' then visitCastExpression rt rec cs
      else if l = ''LogicOr'' then visitLogicOr rec cs
      else if l = ''LogicAnd'' then visitLogicAnd rec cs
      else if l = ''LogicNot'' then visitLogicNot rec cs
      else if l = ''LogicPrimaryWrap'' then visit_rule rec ''boolPrimary'' cs
      else if l = ''LogicParen'' then visit_rule rec ''boolExpression'' cs
      else if l = ''TrueLiteral'' then ret (BoolVal True)
      else if l = ''FalseLiteral'' then ret (BoolVal False)
      else if l = ''FactorTrue'' then ret (BoolVal True)
      else if l = ''FactorFalse'' then ret (BoolVal False)
      else if l = ''LogicIdentifier'' then visitLogicIdentifier cs
      else if l = ''IfStatement'' then visitIfStatement rec cs
      else if l = ''LoopIfStatement'' then visitLoopIfStatement rec cs
      else if l = ''BreakStatement'' then ret BreakStatement
      else if l = ''LoopStatements'' then visitLoopStatements rec cs
      else if l = ''WhileLoop'' then visitWhileLoop rec (RuleNode r l p cs) cs
      else if l = ''ForLoop''
        then visitForLoop rec (RuleNode r l p (filter (\<lambda>n. \<not> is_rule ''forInit'' n) cs)) cs
      else if l = ''Expression'' then visitExpression rec cs
      else visitChildren rec cs)"

text \<open>
  \<open>visit rt n ctx\<close> is \<^verbatim>\<open>self.visit(ctx)\<close> with fuel \<open>n\<close>: each nested call of
  \<^verbatim>\<open>self.visit\<close>, and each further iteration of a loop, takes one unit.
\<close>

primrec visit :: "runtime \<Rightarrow> nat \<Rightarrow> node \<Rightarrow> pyval M" where
  "visit rt 0 = (\<lambda>ctx s. None)"
| "visit rt (Suc n) = visit_step rt (visit rt n)"

subsection \<open>Building syntax trees\<close>

text \<open>
  A runtime for the closed examples below: \<open>rt0\<close> computes exactly on finite floats and
  reads a sign, digits and an optional fraction as the exact decimal. It gives what
  Python gives wherever the exact result is a double, as in the examples, whose
  literals and float results are among 1.0, 1.5, 2.0, 3.5 and 7.0. None of the programs
  evaluated there prints a float or a string inside a list, formats a string with \<^verbatim>\<open>%\<close>
  or calls a function of \<^verbatim>\<open>math\<close>.
\<close>

definition decimal_of_str :: "string \<Rightarrow> rat option" where
  "decimal_of_str s =
     (case split_sign s of
        (neg, ds) \<Rightarrow>
          let ip = takeWhile is_digit ds;
              rest = dropWhile is_digit ds;
              frac = (case rest of
                        [] \<Rightarrow> Some []
                      | c # fs \<Rightarrow> if c = CHR ''.'' \<and> list_all is_digit fs then Some fs else None)
          in (case frac of
                None \<Rightarrow> None
              | Some fs \<Rightarrow>
                  if ip = [] \<and> fs = [] then None
                  else
                    let q = of_nat (nat_of_digits ip) + of_nat (nat_of_digits fs) / 10 ^ length fs
                    in Some (if neg then - q else q)))"

fun exact_op :: "(rat \<Rightarrow> rat \<Rightarrow> rat) \<Rightarrow> pyfloat \<Rightarrow> pyfloat \<Rightarrow> pyfloat" where
  "exact_op f (Finite a) (Finite b) = Finite (f a b)"
| "exact_op f x y = NaN"

definition rt0 :: runtime where
  "rt0 =
     \<lparr>float_of_str = (\<lambda>s. map_option Finite (decimal_of_str s)),
      float_of_int = (\<lambda>i. Some (Finite (of_int i))),
      float_add = exact_op (+), float_sub = exact_op (-), float_mul = exact_op (*),
      float_truediv = exact_op (/),
      float_floordiv = exact_op (\<lambda>a b. of_int \<lfloor>a / b\<rfloor>),
      float_mod = exact_op (\<lambda>a b. a - of_int \<lfloor>a / b\<rfloor> * b),
      int_truediv = (\<lambda>i j. Some (Finite (of_int i / of_int j))),
      float_repr = (\<lambda>f. ''<float>''), str_repr = (\<lambda>s. s), object_repr = ''<object>'',
      str_format = (\<lambda>s v. Inl TypeError), math_pow = (\<lambda>x y. Inl ValueError),
      math_sin = (\<lambda>x. Inl ValueError), math_cos = (\<lambda>x. Inl ValueError),
      math_tan = (\<lambda>x. Inl ValueError)\<rparr>"

text \<open>
  The trees of the examples are written with the functions below, one for each shape of
  context, and \<open>link\<close> then sets the parent of every context. The shapes follow the
  accessors of the visit methods; tokens that no method reads are left out.
\<close>

fun link :: "string \<Rightarrow> node \<Rightarrow> node" where
  "link p (TerminalNode t x) = TerminalNode t x"
| "link p (RuleNode r l q cs) = RuleNode r l p (map (link r) cs)"

definition rule :: "string \<Rightarrow> string \<Rightarrow> node list \<Rightarrow> node" where
  "rule r l cs = RuleNode r l [] cs"

definition factor_number :: "string \<Rightarrow> node" where
  "factor_number x = rule ''factor'' ''FactorNumber'' [TerminalNode ''NUMBER'' x]"

definition factor_identifier :: "string \<Rightarrow> node" where
  "factor_identifier x = rule ''factor'' ''FactorIdentifier'' [TerminalNode ''IDENTIFIER'' x]"

definition factor_string :: "string \<Rightarrow> node" where
  "factor_string x =
     rule ''factor'' ''FactorString'' [TerminalNode ''STRING'' (CHR 0x22 # x @ [CHR 0x22])]"

definition factor_true :: node where
  "factor_true = rule ''factor'' ''FactorTrue'' [TerminalNode ''TRUE'' ''true'']"

definition factor_call :: "node \<Rightarrow> node" where
  "factor_call c = rule ''factor'' ''FactorFunctionCall'' [c]"

definition factor_operation :: "node \<Rightarrow> node" where
  "factor_operation c = rule ''factor'' ''FactorOperation'' [c]"

definition unary_minus :: "node \<Rightarrow> node" where
  "unary_minus f = rule ''factor'' ''UnaryMinus'' [TerminalNode ''MINUS'' ''-'', f]"

definition term1 :: "node \<Rightarrow> node" where
  "term1 f = rule ''term'' ''Term'' [f]"

definition term3 :: "node \<Rightarrow> string \<Rightarrow> node \<Rightarrow> node" where
  "term3 l op r = rule ''term'' ''Term'' [l, TerminalNode ''OP'' op, r]"

definition num1 :: "node \<Rightarrow> node" where
  "num1 t = rule ''numExpression'' ''NumExpression'' [t]"

definition num3 :: "node \<Rightarrow> string \<Rightarrow> node \<Rightarrow> node" where
  "num3 l op r = rule ''numExpression'' ''NumExpression'' [l, TerminalNode ''OP'' op, r]"

definition expression :: "node \<Rightarrow> node" where
  "expression e = rule ''expression'' ''Expression'' [e]"

text \<open>The expression that is a single factor.\<close>

definition expr_factor :: "node \<Rightarrow> node" where
  "expr_factor f = expression (num1 (term1 f))"

definition num_comparison :: "node \<Rightarrow> string \<Rightarrow> node \<Rightarrow> node" where
  "num_comparison l op r =
     rule ''boolPrimary'' ''NumComparison''
       [l, rule ''comparisonOp'' ''ComparisonOp'' [TerminalNode ''OP'' op], r]"

definition true_literal :: node where
  "true_literal = rule ''boolPrimary'' ''TrueLiteral'' [TerminalNode ''TRUE'' ''true'']"

definition bool_expression :: "node \<Rightarrow> node" where
  "bool_expression b = rule ''boolExpression'' ''BoolExpression'' [b]"

definition statement :: "node \<Rightarrow> node" where
  "statement c = rule ''statement'' ''Statement'' [c]"

definition declare_var :: "string \<Rightarrow> node \<Rightarrow> node" where
  "declare_var x e =
     rule ''variableDeclarationOrAssignment'' ''VariableDeclarationOrAssignment''
       [TerminalNode ''SET'' ''Set'', TerminalNode ''IDENTIFIER'' x, e]"

definition assign_var :: "string \<Rightarrow> node \<Rightarrow> node" where
  "assign_var x e =
     rule ''variableDeclarationOrAssignment'' ''VariableDeclarationOrAssignment''
       [TerminalNode ''IDENTIFIER'' x, e]"

definition scoped_identifier :: "nat \<Rightarrow> string \<Rightarrow> node" where
  "scoped_identifier n x =
     rule ''scopedIdentifier'' ''ScopedIdentifier''
       (replicate n (TerminalNode ''PARENT_SCOPE'' ''parent::'') @ [TerminalNode ''IDENTIFIER'' x])"

definition declare_scoped :: "nat \<Rightarrow> string \<Rightarrow> node \<Rightarrow> node" where
  "declare_scoped n x e =
     rule ''variableDeclarationOrAssignment'' ''VariableDeclarationOrAssignment''
       [TerminalNode ''SET'' ''Set'', scoped_identifier n x, e]"

definition write_scoped :: "nat \<Rightarrow> string \<Rightarrow> node \<Rightarrow> node" where
  "write_scoped n x e =
     rule ''variableDeclarationOrAssignment'' ''VariableDeclarationOrAssignment''
       [scoped_identifier n x, e]"

definition block :: "node list \<Rightarrow> node" where
  "block sts = rule ''blockStatement'' ''BlockStatement'' sts"

definition function_declaration :: "string \<Rightarrow> string list \<Rightarrow> node \<Rightarrow> node" where
  "function_declaration f ps b =
     rule ''functionDeclaration'' ''FunctionDeclaration''
       [TerminalNode ''IDENTIFIER'' f,
        rule ''parameter'' ''Parameter''
          (map (\<lambda>p. rule ''typedParameter'' ''TypedParameter'' [TerminalNode ''IDENTIFIER'' p]) ps),
        b]"

definition function_call :: "string \<Rightarrow> node list \<Rightarrow> node" where
  "function_call f args =
     rule ''functionCall'' ''FunctionCall''
       [TerminalNode ''IDENTIFIER'' f, rule ''argumentList'' ''ArgumentList'' args]"

definition return_statement :: "node \<Rightarrow> node" where
  "return_statement e = rule ''returnStatement'' ''ReturnStatement'' [e]"

definition display_statement :: "node list \<Rightarrow> node" where
  "display_statement es = rule ''displayStatement'' ''DisplayStatement'' es"

definition increment :: "string \<Rightarrow> node" where
  "increment x =
     rule ''operation'' ''Operation'' [TerminalNode ''IDENTIFIER'' x, TerminalNode ''INCREMENT'' ''++'']"

definition break_statement :: node where
  "break_statement = rule ''breakStatement'' ''BreakStatement'' [TerminalNode ''BREAK'' ''break'']"

definition loop_statement :: "node \<Rightarrow> node" where
  "loop_statement c = rule ''loopStatement'' ''LoopStatement'' [c]"

definition loop_statements :: "node \<Rightarrow> node" where
  "loop_statements c = rule ''loopStatements'' ''LoopStatements'' [c]"

definition loop_if :: "node \<Rightarrow> node \<Rightarrow> node" where
  "loop_if c b = rule ''loopIfStatement'' ''LoopIfStatement'' [c, b]"

definition while_loop :: "node \<Rightarrow> node list \<Rightarrow> node" where
  "while_loop c b = rule ''whileLoop'' ''WhileLoop'' (c # b)"

definition program :: "node list \<Rightarrow> node" where
  "program sts = link [] (rule ''program'' ''Program'' sts)"

text \<open>What a run leaves for a caller to see: the outcome, and the output log.\<close>

definition outcome_of :: "('a outcome \<times> interp) option \<Rightarrow> 'a outcome option" where
  "outcome_of r = map_option fst r"

definition output_of :: "('a outcome \<times> interp) option \<Rightarrow> string list option" where
  "output_of r = map_option (\<lambda>p. output_lines (snd p)) r"

subsection \<open>Notions used in the statements below\<close>

text \<open>The value of an integer (\<^verbatim>\<open>int\<close> or \<^verbatim>\<open>bool\<close>), 0 for any other value.\<close>

definition int_val :: "pyval \<Rightarrow> int" where
  "int_val v = (case as_number v of Some (IntNum i) \<Rightarrow> i | _ \<Rightarrow> 0)"

text \<open>
  A number as the operand of a float operation: a float is itself and an integer \<open>i\<close> is
  \<^verbatim>\<open>float(i)\<close>, an \<^verbatim>\<open>OverflowError\<close> when \<open>i\<close> is too large; a value that is no number is a
  \<^verbatim>\<open>TypeError\<close>.
\<close>

definition as_float :: "runtime \<Rightarrow> pyval \<Rightarrow> error + pyfloat" where
  "as_float rt v =
     (case v of
        FloatVal f \<Rightarrow> Inr f
      | IntVal i \<Rightarrow> (case float_of_int rt i of Some f \<Rightarrow> Inr f | None \<Rightarrow> Inl OverflowError)
      | BoolVal b \<Rightarrow>
          (case float_of_int rt (if b then 1 else 0) of
             Some f \<Rightarrow> Inr f
           | None \<Rightarrow> Inl OverflowError)
      | _ \<Rightarrow> Inl TypeError)"




text \<open>Truncating integer division, as the spec words it: the quotient rounded towards zero.\<close>

definition truncating_div :: "int \<Rightarrow> int \<Rightarrow> int" where
  "truncating_div a b = sgn a * sgn b * (\<bar>a\<bar> div \<bar>b\<bar>)"

text \<open>
  The state in which \<^verbatim>\<open>callFunction\<close> visits the body (lines 318 to 334): the new scope
  \<open>next_ref s\<close> has the function's defining scope as parent and binds the parameters, it
  is the current scope, the frame is on the call stack and the flag is set.
\<close>

definition call_entry :: "string \<Rightarrow> func \<Rightarrow> pyval list \<Rightarrow> interp \<Rightarrow> interp" where
  "call_entry name func args s =
     s\<lparr>scopes := (scopes s)(next_ref s :=
          fold (\<lambda>(pname, arg). set_variable_obj pname arg True) (zip (params func) args)
            (empty_scope (Some (scope func)))),
       next_ref := Suc (next_ref s),
       current_scope := next_ref s,
       call_stack := call_stack s @ [(name, params func, next_ref s)],
       skip_next_block_scope := True\<rparr>"

text \<open>
  What \<^verbatim>\<open>callFunction\<close> makes of the way the body ends (lines 336 to 342): the value of
  a \<^verbatim>\<open>FunctionReturn\<close> is the result, the frame is popped and the scope \<open>previous_scope\<close>
  of the caller is current again.
\<close>

definition call_exit ::
    "nat \<Rightarrow> (pyval outcome \<times> interp) option \<Rightarrow> (pyval outcome \<times> interp) option" where
  "call_exit previous_scope r =
     (case r of
        None \<Rightarrow> None
      | Some (out, s2) \<Rightarrow>
          if call_stack s2 = [] then Some (Raise (Error IndexError), s2)
          else Some ((case out of Raise (FunctionReturn v) \<Rightarrow> Val v | _ \<Rightarrow> out),
                     s2\<lparr>call_stack := butlast (call_stack s2), current_scope := previous_scope\<rparr>))"

text \<open>The state after \<^verbatim>\<open>push_env\<close>: a new scope, child of the current one, is current.\<close>

definition pushed_state :: "interp \<Rightarrow> interp" where
  "pushed_state s =
     s\<lparr>scopes := (scopes s)(next_ref s := empty_scope (Some (current_scope s))),
       next_ref := Suc (next_ref s),
       current_scope := next_ref s\<rparr>"

text \<open>
  Whether one of the scopes at the distances \<open>ks\<close> above the scope \<open>cur\<close> binds the name.
  With the target \<open>levels\<close> above the current scope, the current scope is at distance 0
  and the scopes strictly between the two are at the distances from 1 below \<open>levels\<close>.
\<close>

definition binds_at :: "(nat \<Rightarrow> scope_obj) \<Rightarrow> nat \<Rightarrow> string \<Rightarrow> nat \<Rightarrow> bool" where
  "binds_at h cur name k =
     (case ancestor h cur k of Some r \<Rightarrow> has_variable (h r) name | None \<Rightarrow> False)"

definition bound_from_current :: "(nat \<Rightarrow> scope_obj) \<Rightarrow> nat \<Rightarrow> nat \<Rightarrow> string \<Rightarrow> bool" where
  "bound_from_current h cur levels name = list_ex (binds_at h cur name) [0..<levels]"

definition bound_strictly_between :: "(nat \<Rightarrow> scope_obj) \<Rightarrow> nat \<Rightarrow> nat \<Rightarrow> string \<Rightarrow> bool" where
  "bound_strictly_between h cur levels name = list_ex (binds_at h cur name) [1..<levels]"

text \<open>
  One iteration of a loop body, without the handling of the scope: the statements are
  visited in order up to the first one whose result is not \<^verbatim>\<open>None\<close>. The result is that
  value, or \<open>None\<close> when every statement yielded \<^verbatim>\<open>None\<close>, with the state reached; there is
  no result when a statement raises or does not return.
\<close>

fun iteration ::
    "(node \<Rightarrow> pyval M) \<Rightarrow> node list \<Rightarrow> interp \<Rightarrow> (pyval option \<times> interp) option" where
  "iteration rec [] s = Some (None, s)"
| "iteration rec (stmt # stmts) s =
     (case rec stmt s of
        Some (Val v, s') \<Rightarrow> if v \<noteq> NoneVal then Some (Some v, s') else iteration rec stmts s'
      | _ \<Rightarrow> None)"

text \<open>The state \<open>s\<close> with \<open>r\<close> as the current scope, as \<^verbatim>\<open>pop_env\<close> leaves it.\<close>

definition popped_to :: "nat \<Rightarrow> interp \<Rightarrow> interp" where
  "popped_to r s = s\<lparr>current_scope := r\<rparr>"


text \<open>The number of \<^verbatim>\<open>parent::\<close> prefixes of a scoped name, and the name after them.\<close>

definition levels_of :: "string \<Rightarrow> nat" where
  "levels_of scoped_name = length (split_colons [] scoped_name) - 1"

definition var_name_of :: "string \<Rightarrow> string" where
  "var_name_of scoped_name = last (split_colons [] scoped_name)"

definition shadow_error :: "string \<Rightarrow> exn" where
  "shadow_error var_name =
     Error (InterpreterError
       (''Cannot declare variable '' @ quoted var_name @
        '' in parent scope when it exists in child scope'')
       ''Remove the local declaration first or use a different name'')"

text \<open>
  What a visit leaves as it is: \<open>grows s s'\<close> says that from \<open>s\<close> to \<open>s'\<close> scopes have only
  been added, that the scopes of \<open>s\<close> have kept their parents and that the call stack is
  the same. A computation \<open>keeps\<close> the scope when, besides, it ends in the current scope
  that it started in whenever it returns a value; it \<open>pops\<close> the scope when it then ends
  in the parent of that scope.
\<close>

definition grows :: "interp \<Rightarrow> interp \<Rightarrow> bool" where
  "grows s s' \<longleftrightarrow>
     next_ref s \<le> next_ref s' \<and>
     (\<forall>a<next_ref s. parent (scopes s' a) = parent (scopes s a)) \<and>
     call_stack s' = call_stack s"

definition keeps :: "'a M \<Rightarrow> bool" where
  "keeps m \<longleftrightarrow>
     (\<forall>s out s'. m s = Some (out, s') \<longrightarrow>
        grows s s' \<and> (\<forall>v. out = Val v \<longrightarrow> current_scope s' = current_scope s))"

definition pops :: "'a M \<Rightarrow> bool" where
  "pops m \<longleftrightarrow>
     (\<forall>s out s'. current_scope s < next_ref s \<longrightarrow> m s = Some (out, s') \<longrightarrow>
        grows s s' \<and>
        (\<forall>v. out = Val v \<longrightarrow> parent (scopes s (current_scope s)) = Some (current_scope s')))"

subsection \<open>Example programs\<close>

text \<open>\<^verbatim>\<open>-7 / 2\<close>, \<^verbatim>\<open>7 / 2\<close>, \<^verbatim>\<open>7.0 / 2\<close>, \<^verbatim>\<open>7 % 2\<close>\<close>

definition neg7_div_2 :: node where
  "neg7_div_2 = link [] (term3 (term1 (unary_minus (factor_number ''7''))) ''/'' (factor_number ''2''))"

definition binary_term :: "string \<Rightarrow> string \<Rightarrow> string \<Rightarrow> node" where
  "binary_term x op y = link [] (term3 (term1 (factor_number x)) op (factor_number y))"


text \<open>\<^verbatim>\<open>Set x = 1; x++\<close>\<close>

definition increment_program :: node where
  "increment_program =
     program [statement (declare_var ''x'' (expr_factor (factor_number ''1''))),
              statement (increment ''x'')]"

text \<open>\<^verbatim>\<open>Set x = 1.5; x = 2.0; Set y = 2.0\<close>\<close>

definition reassign_program :: node where
  "reassign_program =
     program [statement (declare_var ''x'' (expr_factor (factor_number ''1.5''))),
              statement (assign_var ''x'' (expr_factor (factor_number ''2.0''))),
              statement (declare_var ''y'' (expr_factor (factor_number ''2.0'')))]"

text \<open>\<^verbatim>\<open>function g() { return 5 }  function f() { g() }  f()\<close>\<close>

definition call_program :: node where
  "call_program =
     program [
       statement (function_declaration ''g'' []
         (block [statement (return_statement (expr_factor (factor_number ''5'')))])),
       statement (function_declaration ''f'' [] (block [statement (function_call ''g'' [])])),
       statement (function_call ''f'' [])]"

text \<open>\<^verbatim>\<open>{ Set x = 1; function f() { return x }  x = 5 }  Display f()\<close>\<close>

definition closure_program :: node where
  "closure_program =
     program [
       statement (block [
         statement (declare_var ''x'' (expr_factor (factor_number ''1''))),
         statement (function_declaration ''f'' []
           (block [statement (return_statement (expr_factor (factor_identifier ''x'')))])),
         statement (assign_var ''x'' (expr_factor (factor_number ''5'')))]),
       statement (display_statement [expression (function_call ''f'' [])])]"

text \<open>
  \<^verbatim>\<open>Set i = 0; while (i < 2) { { while (true) { if (true) break } }  Display i; i = i + 1 }\<close>
\<close>

definition nested_while_program :: node where
  "nested_while_program =
     program [
       statement (declare_var ''i'' (expr_factor (factor_number ''0''))),
       statement (while_loop
         (bool_expression (num_comparison (num1 (term1 (factor_identifier ''i''))) ''<''
            (num1 (term1 (factor_number ''2'')))))
         [loop_statements (block [statement (while_loop (bool_expression true_literal)
            [loop_statements (loop_statement (loop_if (bool_expression true_literal)
               (loop_statements (loop_statement break_statement))))])]),
          loop_statements (display_statement [expr_factor (factor_identifier ''i'')]),
          loop_statements (assign_var ''i''
            (expression (num3 (num1 (term1 (factor_identifier ''i''))) ''+''
               (term1 (factor_number ''1'')))))])]"

text \<open>\<^verbatim>\<open>while (true) { return 1 }\<close>\<close>

definition while_return :: node where
  "while_return =
     link [] (while_loop (bool_expression true_literal)
       [loop_statements (return_statement (expr_factor (factor_number ''1'')))])"

text \<open>\<^verbatim>\<open>{ { Set x = 5; Set parent::x = 1 } }\<close>\<close>

definition shadow_program :: node where
  "shadow_program =
     program [
       statement (block [statement (block [
         statement (declare_var ''x'' (expr_factor (factor_number ''5''))),
         statement (declare_scoped 1 ''x'' (expr_factor (factor_number ''1'')))])])]"

text \<open>\<^verbatim>\<open>{ Set x = 0; { Set x = 5; parent::x = 1; Display x }  Display x }\<close>\<close>

definition parent_write_program :: node where
  "parent_write_program =
     program [
       statement (block [
         statement (declare_var ''x'' (expr_factor (factor_number ''0''))),
         statement (block [
           statement (declare_var ''x'' (expr_factor (factor_number ''5''))),
           statement (write_scoped 1 ''x'' (expr_factor (factor_number ''1''))),
           statement (display_statement [expr_factor (factor_identifier ''x'')])]),
         statement (display_statement [expr_factor (factor_identifier ''x'')])])]"

text \<open>\<^verbatim>\<open>{ break }\<close>, a block whose statement yields the break sentinel\<close>

definition break_block :: node where
  "break_block = link [] (block [statement (loop_statement break_statement)])"

text \<open>A store of three nested scopes 0, 1, 2 where only the innermost binds \<open>x\<close>.\<close>

definition three_scopes :: "nat \<Rightarrow> scope_obj" where
  "three_scopes =
     (\<lambda>r. empty_scope None)
       (1 := empty_scope (Some 0),
        2 := \<lparr>variables = [''x'' \<mapsto> IntVal 5], parameters = {}, parent = Some 1\<rparr>)"

text \<open>
  The interpreter in the scope 2 of these three scopes, and the children of the
  declaration \<^verbatim>\<open>Set parent::x = 1\<close>.
\<close>

definition nested_state :: interp where
  "nested_state = (init False)\<lparr>scopes := three_scopes, next_ref := 3, current_scope := 2\<rparr>"

definition scoped_children :: "node list" where
  "scoped_children =
     children (link [] (declare_scoped 1 ''x'' (expr_factor (factor_number ''1''))))"

text \<open>
  \<^verbatim>\<open>function g() { return 5 }  function f() { g() }\<close>, the state after these two
  declarations, the entry of \<open>f\<close> in \<^verbatim>\<open>self.functions\<close>, and the one statement of the body
  of \<open>f\<close>.
\<close>

definition two_functions :: node where
  "two_functions =
     program [
       statement (function_declaration ''g'' []
         (block [statement (return_statement (expr_factor (factor_number ''5'')))])),
       statement (function_declaration ''f'' [] (block [statement (function_call ''g'' [])]))]"

definition declared :: interp where
  "declared =
     (case visit rt0 6 two_functions (init False) of
        Some (out, s) \<Rightarrow> s
      | None \<Rightarrow> init False)"

definition f_body :: node where
  "f_body = link ''functionDeclaration'' (block [statement (function_call ''g'' [])])"

definition f_entry :: func where
  "f_entry = \<lparr>params = [], body = Some f_body, scope = 0\<rparr>"

definition call_g :: node where
  "call_g = link ''blockStatement'' (statement (function_call ''g'' []))"

text \<open>\<^verbatim>\<open>while (true) { break }\<close>\<close>

definition while_break :: node where
  "while_break =
     link [] (while_loop (bool_expression true_literal)
       [loop_statements (loop_statement break_statement)])"





section \<open>Properties\<close>

subsection \<open>Evaluation\<close>

lemma visit_numeral: "visit rt (numeral k) = visit_step rt (visit rt (pred_numeral k))"
  by (simp add: numeral_eq_Suc)

lemma get_variable_here:
  "variables (h r) name = Some v \<Longrightarrow> get_variable h r name = Some (Inr v)"
  by (subst get_variable.simps) simp

lemma get_variable_up:
  "variables (h r) name = None \<Longrightarrow> parent (h r) = Some p \<Longrightarrow>
   get_variable h r name = get_variable h p name"
  by (subst get_variable.simps) simp

lemma get_variable_top:
  "variables (h r) name = None \<Longrightarrow> parent (h r) = None \<Longrightarrow>
   get_variable h r name =
     Some (Inl (Exception (''Variable '' @ quoted name @ '' not found in any scope'')))"
  by (subst get_variable.simps) simp

lemma is_parameter_here: "name \<in> parameters (h r) \<Longrightarrow> is_parameter h r name = Some True"
  by (subst is_parameter.simps) simp

lemma is_parameter_up:
  "name \<notin> parameters (h r) \<Longrightarrow> parent (h r) = Some p \<Longrightarrow>
   is_parameter h r name = is_parameter h p name"
  by (subst is_parameter.simps) simp

lemma is_parameter_top:
  "name \<notin> parameters (h r) \<Longrightarrow> parent (h r) = None \<Longrightarrow> is_parameter h r name = Some False"
  by (subst is_parameter.simps) simp

lemma find_scope_None: "find_scope h None name = Some None"
  by (subst find_scope.simps) simp

lemma find_scope_here: "has_variable (h r) name \<Longrightarrow> find_scope h (Some r) name = Some (Some r)"
  by (subst find_scope.simps) simp

lemma find_scope_up:
  "\<not> has_variable (h r) name \<Longrightarrow> find_scope h (Some r) name = find_scope h (parent (h r)) name"
  by (subst find_scope.simps) simp

lemma exists_in_child_None: "variable_exists_in_child_scopes h None t name = Some False"
  by (subst variable_exists_in_child_scopes.simps) simp

lemma exists_in_child_Some:
  "variable_exists_in_child_scopes h (Some r) t name =
     (if r = t then Some False
      else if has_variable (h r) name then Some True
      else variable_exists_in_child_scopes h (parent (h r)) t name)"
  by (subst variable_exists_in_child_scopes.simps) simp

lemmas walks = get_variable_here get_variable_up get_variable_top is_parameter_here
  is_parameter_up is_parameter_top find_scope_None find_scope_here find_scope_up
  exists_in_child_None exists_in_child_Some

lemmas monad_defs = bnd_def ret_def raise_def gets_def modify_def lift_err_def not_none_def
  lift_walk_def except_FunctionReturn_def try_finally_def print_def append_output_def
  visit_opt_def token_text_def rule_text_def token_at_def rule_at_def token_list_def
  rule_list_def child_at_def visit_rule_def

lemmas tree_defs = rule_def factor_number_def factor_identifier_def factor_string_def
  factor_true_def factor_call_def factor_operation_def unary_minus_def term1_def term3_def
  num1_def num3_def expression_def expr_factor_def num_comparison_def true_literal_def
  bool_expression_def statement_def declare_var_def assign_var_def scoped_identifier_def
  declare_scoped_def write_scoped_def block_def function_declaration_def function_call_def
  return_statement_def display_statement_def increment_def break_statement_def
  loop_statement_def loop_statements_def loop_if_def while_loop_def program_def

lemmas visitor_defs = visitProgram_def visitMatrixExpression_def visitMatrixAtom_def
  visitMatrixConstruction_def visitValue_def visitVariableDeclarationOrAssignment_def
  assign_scoped_def assign_plain_def declared_type_of_def type_given_def convert_declared_def
  visitFunctionDeclaration_def call_stack_pop_def callFunction_def visitFunctionCall_def
  visitScopedIdentifier_def visitBlockStatement_def visitReturnStatement_def visitStatement_def
  visitDisplayStatement_def num_op_def visitNumExpression_def term_op_def visitTerm_def
  visitUnaryMinus_def visitFactorNumber_def visitFactorIdentifier_def strip_quotes_def
  visitFactorString_def visitOperation_def evaluateBinaryOp_def lift_bool_def
  visitNumComparison_def visitLogicOr_def visitLogicAnd_def visitLogicNot_def stmt_or_block_def
  visitIfStatement_def loop_branch_def visitLoopIfStatement_def visitLoopStatements_def
  visitWhileLoop_def visitExpression_def push_env_def pop_env_def new_scope_def
  set_variable_def set_variable_obj_def has_variable_def lookup_variable_def
  resolve_scope_for_assignment_def empty_scope_def init_def

lemma rt0_simps:
  "float_of_str rt0 s = map_option Finite (decimal_of_str s)"
  "float_of_int rt0 i = Some (Finite (of_int i))"
  "float_add rt0 = exact_op (+)"
  "float_sub rt0 = exact_op (-)"
  "float_mul rt0 = exact_op (*)"
  "float_truediv rt0 = exact_op (/)"
  "int_truediv rt0 i j = Some (Finite (of_int i / of_int j))"
  "str_repr rt0 s = s"
  by (simp_all add: rt0_def)

lemmas value_defs = int_of_str_def decimal_of_str_def split_sign_def is_digit_def
  nat_of_digits_def digit_val_def py_add_def py_sub_def py_mul_def py_truediv_def
  py_floordiv_def py_mod_def py_neg_def isinstance_int_float_def str_int_def digits.simps
  digit_char_def trunc_rat_def quoted_def err_bind_def float_division_def rt0_simps

lemmas eval = visit_numeral walks monad_defs tree_defs visitor_defs value_defs outcome_of_def
  output_of_def Let_def

subsection \<open>Outcomes of sequenced computations\<close>

lemma bnd_Val:
  "bnd m f s = Some (Val v, s') \<longleftrightarrow> (\<exists>u s1. m s = Some (Val u, s1) \<and> f u s1 = Some (Val v, s'))"
  by (auto simp: bnd_def split: option.splits outcome.splits prod.splits)

lemma ret_Val: "ret x s = Some (Val v, s') \<longleftrightarrow> v = x \<and> s' = s"
  by (auto simp: ret_def)

lemma bnd_SomeE:
  assumes "bnd m f s = Some (out, s')"
  obtains (raised) e where "m s = Some (Raise e, s')" "out = Raise e"
    | (returned) v s1 where "m s = Some (Val v, s1)" "f v s1 = Some (out, s')"
  using assms by (auto simp: bnd_def split: option.splits outcome.splits prod.splits)

lemma bnd_returned: "m s = Some (Val v, s1) \<Longrightarrow> bnd m f s = f v s1"
  by (simp add: bnd_def)

lemma bnd_ret: "bnd (ret x) f = f x"
  by (rule ext) (simp add: bnd_def ret_def)

lemma bnd_assoc: "bnd (bnd m f) g = bnd m (\<lambda>x. bnd (f x) g)"
  by (rule ext) (simp add: bnd_def split: option.splits outcome.splits prod.splits)

lemma bnd_if: "bnd (if c then a else b) g = (if c then bnd a g else bnd b g)"
  by simp

lemma bnd_gets: "bnd (gets f) k s = k (f s) s"
  by (simp add: bnd_def gets_def)

lemma bnd_modify: "bnd (modify f) k s = k () (f s)"
  by (simp add: bnd_def modify_def)

lemma bnd_new_scope:
  "bnd (new_scope p) k s =
     k (next_ref s)
       (s\<lparr>scopes := (scopes s)(next_ref s := empty_scope p), next_ref := Suc (next_ref s)\<rparr>)"
  by (simp add: bnd_def new_scope_def)

subsection \<open>The scope and the call stack across a visit\<close>

lemma grows_refl: "grows s s"
  by (simp add: grows_def)

lemma grows_trans: "grows s s1 \<Longrightarrow> grows s1 s2 \<Longrightarrow> grows s s2"
  by (auto simp: grows_def)

lemma keepsI:
  assumes "\<And>s out s'. m s = Some (out, s') \<Longrightarrow> grows s s'"
    and "\<And>s v s'. m s = Some (Val v, s') \<Longrightarrow> current_scope s' = current_scope s"
  shows "keeps m"
  using assms by (auto simp: keeps_def)

lemma keeps_grows: "keeps m \<Longrightarrow> m s = Some (out, s') \<Longrightarrow> grows s s'"
  by (auto simp: keeps_def)

lemma keeps_scope: "keeps m \<Longrightarrow> m s = Some (Val v, s') \<Longrightarrow> current_scope s' = current_scope s"
  by (auto simp: keeps_def)

named_theorems keeps_intros

lemma keeps_ret [keeps_intros]: "keeps (ret x)"
  by (auto simp: keeps_def ret_def grows_refl)

lemma keeps_raise [keeps_intros]: "keeps (raise e)"
  by (auto simp: keeps_def raise_def grows_refl)

lemma keeps_gets [keeps_intros]: "keeps (gets f)"
  by (auto simp: keeps_def gets_def grows_refl)

lemma keeps_lift_err [keeps_intros]: "keeps (lift_err r)"
  by (cases r) (simp_all add: lift_err_def keeps_ret keeps_raise)

lemma keeps_not_none [keeps_intros]: "keeps (not_none x)"
  by (cases x) (simp_all add: not_none_def keeps_ret keeps_raise)

lemma keeps_lift_walk [keeps_intros]: "keeps (lift_walk f)"
  by (auto simp: keeps_def lift_walk_def grows_refl split: option.splits)

lemma keeps_bnd [keeps_intros]:
  assumes m: "keeps m" and f: "\<And>v. keeps (f v)"
  shows "keeps (bnd m f)"
proof (rule keepsI)
  fix s out s'
  assume "bnd m f s = Some (out, s')"
  then show "grows s s'"
  proof (cases rule: bnd_SomeE)
    case (raised e)
    then show ?thesis using keeps_grows [OF m] by blast
  next
    case (returned v s1)
    then show ?thesis using keeps_grows [OF m] keeps_grows [OF f] grows_trans by blast
  qed
next
  fix s v s'
  assume "bnd m f s = Some (Val v, s')"
  then obtain u s1 where 1: "m s = Some (Val u, s1)" and 2: "f u s1 = Some (Val v, s')"
    by (auto simp: bnd_Val)
  show "current_scope s' = current_scope s"
    using keeps_scope [OF m 1] keeps_scope [OF f 2] by simp
qed

lemma keeps_modify [keeps_intros]:
  assumes "\<And>s. next_ref (f s) = next_ref s"
    and "\<And>s a. parent (scopes (f s) a) = parent (scopes s a)"
    and "\<And>s. call_stack (f s) = call_stack s"
    and "\<And>s. current_scope (f s) = current_scope s"
  shows "keeps (modify f)"
  by (auto simp: keeps_def modify_def grows_def assms)

lemma keeps_if [keeps_intros]: "keeps a \<Longrightarrow> keeps b \<Longrightarrow> keeps (if c then a else b)"
  by simp

lemma keeps_case_option [keeps_intros]:
  "keeps a \<Longrightarrow> (\<And>x. keeps (b x)) \<Longrightarrow> keeps (case x of None \<Rightarrow> a | Some y \<Rightarrow> b y)"
  by (cases x) simp_all

lemma keeps_case_prod [keeps_intros]:
  "(\<And>a b. keeps (f a b)) \<Longrightarrow> keeps (case p of (a, b) \<Rightarrow> f a b)"
  by (cases p) simp

lemma keeps_case_sum [keeps_intros]:
  "(\<And>a. keeps (f a)) \<Longrightarrow> (\<And>b. keeps (g b)) \<Longrightarrow> keeps (case x of Inl a \<Rightarrow> f a | Inr b \<Rightarrow> g b)"
  by (cases x) simp_all

lemma keeps_case_pyval [keeps_intros]:
  "keeps a \<Longrightarrow> (\<And>x. keeps (b x)) \<Longrightarrow> (\<And>x. keeps (c x)) \<Longrightarrow> (\<And>x. keeps (d x)) \<Longrightarrow>
   (\<And>x. keeps (e x)) \<Longrightarrow> (\<And>x. keeps (f x)) \<Longrightarrow> keeps g \<Longrightarrow>
   keeps (case_pyval a b c d e f g v)"
  by (cases v) simp_all

lemma keeps_print [keeps_intros]: "keeps (print line)"
  unfolding print_def by (rule keeps_modify) simp_all

lemma keeps_append_output [keeps_intros]: "keeps (append_output line)"
  unfolding append_output_def by (rule keeps_modify) simp_all

lemma keeps_set_variable [keeps_intros]: "keeps (set_variable r name v is_param)"
  unfolding set_variable_def by (rule keeps_modify) (simp_all add: set_variable_obj_def)

lemma keeps_new_scope [keeps_intros]: "keeps (new_scope p)"
  by (auto simp: keeps_def new_scope_def grows_def)

lemma keeps_lookup_variable [keeps_intros]: "keeps (lookup_variable name)"
  unfolding lookup_variable_def by (intro keeps_intros)

lemma keeps_resolve_scope_for_assignment [keeps_intros]:
  "keeps (resolve_scope_for_assignment scoped_name)"
  unfolding resolve_scope_for_assignment_def Let_def by (intro keeps_intros)

lemma keeps_token_text [keeps_intros]: "keeps (token_text t cs)"
  unfolding token_text_def by (intro keeps_intros)

lemma keeps_rule_text [keeps_intros]: "keeps (rule_text r cs)"
  unfolding rule_text_def by (intro keeps_intros)

lemma keeps_visit_opt [keeps_intros]: "(\<And>n. keeps (rec n)) \<Longrightarrow> keeps (visit_opt rec x)"
  unfolding visit_opt_def by (intro keeps_intros)

lemma keeps_visit_rule [keeps_intros]: "(\<And>n. keeps (rec n)) \<Longrightarrow> keeps (visit_rule rec r cs)"
  unfolding visit_rule_def by (intro keeps_intros)

lemma keeps_visit_all [keeps_intros]:
  assumes rec: "\<And>n. keeps (rec n)"
  shows "keeps (visit_all rec es)"
proof (induction es)
  case Nil
  show ?case by (simp add: keeps_ret)
next
  case (Cons e es)
  show ?case unfolding visit_all.simps by (intro keeps_intros rec Cons)
qed

lemma keeps_visit_each [keeps_intros]:
  assumes rec: "\<And>n. keeps (rec n)"
  shows "keeps (visit_each rec sts)"
proof (induction sts)
  case Nil
  show ?case by (simp add: keeps_ret)
next
  case (Cons st sts)
  show ?case unfolding visit_each.simps by (intro keeps_intros rec Cons)
qed

lemma keeps_visitChildren [keeps_intros]:
  assumes rec: "\<And>n. keeps (rec n)"
  shows "keeps (visitChildren rec cs)"
proof (induction cs)
  case Nil
  show ?case by (simp add: keeps_ret)
next
  case (Cons c cs)
  note IH = Cons.IH
  show ?case
  proof (cases cs)
    case Nil
    then show ?thesis by (simp add: rec)
  next
    case (Cons d ds)
    show ?thesis
      using IH unfolding Cons visitChildren.simps by (intro keeps_intros rec)
  qed
qed

subsection \<open>Helper lemmas on values\<close>

lemma as_number_int:
  assumes "isinstance_int v"
  shows "as_number v = Some (IntNum (int_val v))"
  using assms by (cases v) (simp_all add: int_val_def)

lemma not_float_number:
  assumes "\<not> isinstance_float v" "as_number v \<noteq> None"
  shows "isinstance_int v"
  using assms by (cases v) simp_all


lemma as_float_to_float: "as_number v = Some x \<Longrightarrow> as_float rt v = to_float rt x"
  by (cases v) (auto simp: as_float_def split: option.splits)


lemma float_operands_division:
  assumes "isinstance_float left \<or> isinstance_float right"
    and "as_number left = Some x" and "as_number right = Some y"
  shows "float_division rt ff x y =
     err_bind (as_float rt left) (\<lambda>a. err_bind (as_float rt right) (\<lambda>b.
       if float_is_zero b then Inl ZeroDivisionError else Inr (FloatVal (ff a b))))"
  using assms
  by (cases left; cases right; auto simp: float_division_def as_float_def err_bind_def
      split: option.splits)





subsection \<open>C9: the inverse of a matrix\<close>









subsection \<open>C5: division\<close>

lemma term_op_floor:
  assumes "isinstance_int right" "\<not> isinstance_float left" "as_number left \<noteq> None"
  shows "term_op rt ''/'' left right =
     Some (if int_val right = 0 then Inl ZeroDivisionError
           else Inr (IntVal (int_val left div int_val right)))"
proof -
  have l: "isinstance_int left" using assms not_float_number by blast
  show ?thesis
    using assms
    by (simp add: term_op_def py_floordiv_def as_number_int [OF l] as_number_int [OF assms(1)])
qed

lemma term_op_real:
  assumes "\<not> (isinstance_int right \<and> \<not> isinstance_float left)"
    and "as_number left \<noteq> None" and "as_number right \<noteq> None"
  shows "term_op rt ''/'' left right =
     Some (err_bind (as_float rt left) (\<lambda>x. err_bind (as_float rt right) (\<lambda>y.
       if float_is_zero y then Inl ZeroDivisionError
       else Inr (FloatVal (float_truediv rt x y)))))"
proof -
  obtain x y where n: "as_number left = Some x" "as_number right = Some y"
    using assms by auto
  have fl: "isinstance_float left \<or> isinstance_float right"
    using assms not_float_number by blast
  then have "\<not> (\<exists>i j. x = IntNum i \<and> y = IntNum j)"
    using n by (cases left; cases right; auto)
  then have "py_truediv rt left right = float_division rt (float_truediv rt) x y"
    by (cases x; cases y; simp add: py_truediv_def n)
  with assms(1) show ?thesis
    by (auto simp: term_op_def float_operands_division [OF fl n])
qed

text \<open>
  C5, as the claim states it, fails: \<^verbatim>\<open>-7 / 2\<close> evaluates to \<open>-4\<close> (Python's \<^verbatim>\<open>//\<close> rounds
  towards minus infinity), while truncating integer division gives \<open>-3\<close>.
\<close>

theorem C5_counterexample:
  "visit rt0 5 neg7_div_2 (init False) = Some (Val (IntVal (- 4)), init False)
   \<and> truncating_div (- 7) 2 = - 3"
  by (simp add: neg7_div_2_def truncating_div_def eval)

text \<open>
  C5, amended. For every binary division of two numbers, the result is the floor
  division of the integers (the quotient rounded towards minus infinity) when the
  right-hand operand is an integer and the left-hand operand is not floating-point; a
  zero divisor is a \<^verbatim>\<open>ZeroDivisionError\<close>. Otherwise, one operand being a float, it is the
  float division of the runtime on the two operands as floats: an integer operand is
  converted, an \<^verbatim>\<open>OverflowError\<close> when it is too large, and a zero divisor is a
  \<^verbatim>\<open>ZeroDivisionError\<close>. \<^verbatim>\<open>7 / 2\<close> evaluates to 3 and \<^verbatim>\<open>7 % 2\<close> to 1; \<^verbatim>\<open>7.0 / 2\<close> evaluates to
  3.5 on a runtime that reads \<^verbatim>\<open>7.0\<close> as 7, converts 2 to 2.0 and divides 7.0 by 2.0
  to 3.5, as IEEE arithmetic does. (\<^verbatim>\<open>bool\<close> counts as an integer, as in
  \<^verbatim>\<open>isinstance(right, int)\<close>.)
\<close>

theorem C5_division:
  "(isinstance_int r1 \<and> \<not> isinstance_float l1 \<and> as_number l1 \<noteq> None \<longrightarrow>
      term_op rt ''/'' l1 r1 =
        Some (if int_val r1 = 0 then Inl ZeroDivisionError
              else Inr (IntVal (int_val l1 div int_val r1))))
   \<and> (\<not> (isinstance_int r2 \<and> \<not> isinstance_float l2) \<and> as_number l2 \<noteq> None \<and> as_number r2 \<noteq> None \<longrightarrow>
      term_op rt ''/'' l2 r2 =
        Some (err_bind (as_float rt l2) (\<lambda>x. err_bind (as_float rt r2) (\<lambda>y.
          if float_is_zero y then Inl ZeroDivisionError
          else Inr (FloatVal (float_truediv rt x y))))))
   \<and> visit rt 5 (binary_term ''7'' ''/'' ''2'') s = Some (Val (IntVal 3), s)
   \<and> (float_of_str rt ''7.0'' = Some (Finite 7) \<and> float_of_int rt 2 = Some (Finite 2)
        \<and> float_truediv rt (Finite 7) (Finite 2) = Finite (7 / 2) \<longrightarrow>
      visit rt 5 (binary_term ''7.0'' ''/'' ''2'') s = Some (Val (FloatVal (Finite (7 / 2))), s))
   \<and> visit rt 5 (binary_term ''7'' ''%'' ''2'') s = Some (Val (IntVal 1), s)"
proof (intro conjI impI)
  assume "isinstance_int r1 \<and> \<not> isinstance_float l1 \<and> as_number l1 \<noteq> None"
  then show "term_op rt ''/'' l1 r1 =
        Some (if int_val r1 = 0 then Inl ZeroDivisionError
              else Inr (IntVal (int_val l1 div int_val r1)))"
    by (intro term_op_floor) simp_all
next
  assume "\<not> (isinstance_int r2 \<and> \<not> isinstance_float l2) \<and> as_number l2 \<noteq> None \<and> as_number r2 \<noteq> None"
  then show "term_op rt ''/'' l2 r2 =
        Some (err_bind (as_float rt l2) (\<lambda>x. err_bind (as_float rt r2) (\<lambda>y.
          if float_is_zero y then Inl ZeroDivisionError
          else Inr (FloatVal (float_truediv rt x y)))))"
    by (intro term_op_real) simp_all
next
  show "visit rt 5 (binary_term ''7'' ''/'' ''2'') s = Some (Val (IntVal 3), s)"
    by (simp add: binary_term_def eval)
next
  assume "float_of_str rt ''7.0'' = Some (Finite 7) \<and> float_of_int rt 2 = Some (Finite 2)
        \<and> float_truediv rt (Finite 7) (Finite 2) = Finite (7 / 2)"
  then show "visit rt 5 (binary_term ''7.0'' ''/'' ''2'') s = Some (Val (FloatVal (Finite (7 / 2))), s)"
    by (simp add: binary_term_def eval)
next
  show "visit rt 5 (binary_term ''7'' ''%'' ''2'') s = Some (Val (IntVal 1), s)"
    by (simp add: binary_term_def eval)
qed

theorem C5_division_witness:
  "(isinstance_int (IntVal 2) \<and> \<not> isinstance_float (IntVal (- 7)) \<and> as_number (IntVal (- 7)) \<noteq> None)
   \<and> term_op rt0 ''/'' (IntVal (- 7)) (IntVal 2) = Some (Inr (IntVal (- 4)))
   \<and> (\<not> (isinstance_int (IntVal 2) \<and> \<not> isinstance_float (FloatVal (Finite 7)))
        \<and> as_number (FloatVal (Finite 7)) \<noteq> None \<and> as_number (IntVal 2) \<noteq> None)
   \<and> term_op rt0 ''/'' (FloatVal (Finite 7)) (IntVal 2) = Some (Inr (FloatVal (Finite (7 / 2))))
   \<and> (float_of_str rt0 ''7.0'' = Some (Finite 7) \<and> float_of_int rt0 2 = Some (Finite 2)
        \<and> float_truediv rt0 (Finite 7) (Finite 2) = Finite (7 / 2))
   \<and> visit rt0 5 (binary_term ''7.0'' ''/'' ''2'') (init False) =
       Some (Val (FloatVal (Finite (7 / 2))), init False)"
proof -
  have rt: "float_of_str rt0 ''7.0'' = Some (Finite 7) \<and> float_of_int rt0 2 = Some (Finite 2)
        \<and> float_truediv rt0 (Finite 7) (Finite 2) = Finite (7 / 2)"
    by (simp add: eval)
  note th = C5_division [where rt = rt0 and ?l1.0 = "IntVal (- 7)" and ?r1.0 = "IntVal 2"
      and ?l2.0 = "FloatVal (Finite 7)" and ?r2.0 = "IntVal 2" and s = "init False"]
  from th have 1: "term_op rt0 ''/'' (IntVal (- 7)) (IntVal 2) = Some (Inr (IntVal (- 4)))"
    by (simp add: int_val_def)
  from th have 2: "term_op rt0 ''/'' (FloatVal (Finite 7)) (IntVal 2) =
      Some (Inr (FloatVal (Finite (7 / 2))))"
    by (simp add: as_float_def err_bind_def rt0_simps)
  from rt th [THEN conjunct2, THEN conjunct2, THEN conjunct2, THEN conjunct1]
  have 3: "visit rt0 5 (binary_term ''7.0'' ''/'' ''2'') (init False) =
       Some (Val (FloatVal (Finite (7 / 2))), init False)"
    by (rule rev_mp)
  from 1 2 3 rt show ?thesis by simp
qed

subsection \<open>C6: addition and subtraction\<close>















subsection \<open>C7: increment and decrement\<close>

text \<open>
  C7 fails on the code. \<^verbatim>\<open>visitOperation\<close> looks the name up in \<^verbatim>\<open>self.memory\<close>, a dictionary
  that no method writes to, and not in the scopes, where declarations bind names.
  After \<^verbatim>\<open>Set x = 1\<close> the operation \<^verbatim>\<open>x++\<close> faults with "Variable 'x' not defined."
  instead of yielding 2.
\<close>

theorem C7_increment_of_bound_variable_faults:
  "outcome_of (visit rt0 12 increment_program (init False)) =
     Some (Raise (Error (Exception ''Variable 'x' not defined.'')))"
  by (simp add: increment_program_def eval)

subsection \<open>C4: narrowing of floats\<close>

text \<open>
  C4 fails on the code for a plain reassignment. After \<^verbatim>\<open>Set x = 1.5; x = 2.0; Set y = 2.0\<close>
  the global scope binds \<open>x\<close> to the float 2.0, not narrowed, and \<open>y\<close> to the integer 2:
  the branch of a reassignment (lines 197 to 215) has no narrowing step, the branch of
  a declaration and the branch of a scoped identifier have it.
\<close>

theorem C4_plain_reassignment_keeps_float:
  "map_option (\<lambda>p. (variables (scopes (snd p) 0) ''x'', variables (scopes (snd p) 0) ''y''))
     (visit rt0 12 reassign_program (init False)) =
   Some (Some (FloatVal (Finite 2)), Some (IntVal 2))"
  by (simp add: reassign_program_def eval)

subsection \<open>C10: the result of a block\<close>

lemma visitBlockStatement_None:
  assumes "visitBlockStatement rec cs s = Some (Val v, s')"
  shows "v = NoneVal"
  using assms by (auto simp: visitBlockStatement_def bnd_Val ret_Val split: if_splits)

text \<open>
  C10. Whenever the visit of a block statement completes, the result is \<^verbatim>\<open>None\<close>, on the
  path that pushes a scope as on the path that does not: the results of its statements
  are discarded. The block \<^verbatim>\<open>{ break }\<close>, whose statement yields the break sentinel,
  yields \<^verbatim>\<open>None\<close>.
\<close>

theorem C10_block_yields_none:
  "outcome_of (visit rt (Suc n) (RuleNode r ''BlockStatement'' p cs) s) = Some (Val v)
   \<Longrightarrow> v = NoneVal"
proof -
  assume a: "outcome_of (visit rt (Suc n) (RuleNode r ''BlockStatement'' p cs) s) = Some (Val v)"
  then obtain s' where "visit rt (Suc n) (RuleNode r ''BlockStatement'' p cs) s = Some (Val v, s')"
    by (auto simp: outcome_of_def)
  then have "visitBlockStatement (visit rt n) cs s = Some (Val v, s')"
    by simp
  then show "v = NoneVal" by (rule visitBlockStatement_None)
qed

theorem C10_block_yields_none_witness:
  "outcome_of (visit rt0 (Suc 5) break_block (init False)) = Some (Val NoneVal)
   \<and> outcome_of (visit rt0 5 (link ''blockStatement'' (statement (loop_statement break_statement)))
        (init False)) = Some (Val BreakStatement)"
proof -
  have "\<exists>v. outcome_of (visit rt0 (Suc 5) break_block (init False)) = Some (Val v)"
    by (simp add: break_block_def eval)
  then obtain v where e: "outcome_of (visit rt0 (Suc 5) break_block (init False)) = Some (Val v)" ..
  then have "outcome_of (visit rt0 (Suc 5)
      (RuleNode ''blockStatement'' ''BlockStatement'' []
         (map (link ''blockStatement'') [statement (loop_statement break_statement)]))
      (init False)) = Some (Val v)"
    by (simp add: break_block_def block_def rule_def)
  from C10_block_yields_none [OF this] e
  have 1: "outcome_of (visit rt0 (Suc 5) break_block (init False)) = Some (Val NoneVal)"
    by simp
  have 2: "outcome_of (visit rt0 5 (link ''blockStatement'' (statement (loop_statement break_statement)))
        (init False)) = Some (Val BreakStatement)"
    by (simp add: eval)
  from 1 2 show ?thesis by simp
qed

end
